theory Spec2Isabelle
  imports Complex_Main
begin

chapter \<open>The program\<close>

section \<open>Practica4: the logistic sigmoid\<close>

text \<open>
  \<^verbatim>\<open>
  def sigmoid(z):
      g = 1 / (1 + (np.e ** -z))
      return g
  \<close>
  Python floats are read as the real numbers: rounding and overflow are not modelled.
  \<open>np.e ** -z\<close> is the power of the constant \<open>e = exp 1\<close>.
\<close>

definition sigmoid :: "real \<Rightarrow> real" where
  "sigmoid z = 1 / (1 + (exp 1) powr (- z))"

section \<open>Errors and floats that are not finite\<close>

text \<open>
  What a call can raise. numpy raises \<open>ValueError\<close> when two shapes cannot be multiplied,
  broadcast or reshaped, and \<open>IndexError\<close> for an index outside an axis; Python raises
  \<open>UnboundLocalError\<close> when a local variable is read before any assignment.
  \<open>NotFinite\<close> stands for a gradient array that would hold \<open>nan\<close> or \<open>inf\<close>
  after a division by \<open>m = 0\<close>: numpy only warns there, and such an array has no place
  among arrays of reals.
\<close>

datatype error = ValueError | IndexError | UnboundLocalError | NotFinite

definition ebind :: "error + 'a \<Rightarrow> ('a \<Rightarrow> error + 'b) \<Rightarrow> error + 'b" where
  "ebind r f = (case r of Inl e \<Rightarrow> Inl e | Inr x \<Rightarrow> f x)"

text \<open>
  A float that may fail to be finite: \<open>None\<close> stands for \<open>inf\<close>, \<open>-inf\<close> and \<open>nan\<close>.
  Adding, negating, multiplying by a finite number or dividing by a positive count never
  turns one of them back into a finite number, so \<open>None\<close> absorbs. \<open>np.log\<close> gives
  \<open>-inf\<close> at 0 and \<open>nan\<close> below 0 (with a warning, not an exception); a float divided
  by the integer 0 is \<open>inf\<close> or \<open>nan\<close>.
\<close>

type_synonym fl = "real option"

definition np_log :: "real \<Rightarrow> fl" where
  "np_log x = (if 0 < x then Some (ln x) else None)"

definition fl_mul :: "real \<Rightarrow> fl \<Rightarrow> fl" where
  "fl_mul a x = map_option (\<lambda>v. a * v) x"

definition fl_add :: "fl \<Rightarrow> fl \<Rightarrow> fl" where
  "fl_add x y = (case (x, y) of (Some a, Some b) \<Rightarrow> Some (a + b) | _ \<Rightarrow> None)"

definition fl_neg :: "fl \<Rightarrow> fl" where
  "fl_neg x = map_option uminus x"

definition fl_div :: "fl \<Rightarrow> nat \<Rightarrow> fl" where
  "fl_div x d = (if d = 0 then None else map_option (\<lambda>v. v / real d) x)"

section \<open>Two-dimensional numpy arrays\<close>

text \<open>
  An array is its shape and its buffer in row-major order; \<open>wf_arr\<close> is the invariant
  that numpy keeps between them. \<open>elt A i j\<close> is \<open>A[i, j]\<close> and \<open>mk r c f\<close> is the
  \<open>r \<times> c\<close> array whose entry \<open>(i, j)\<close> is \<open>f i j\<close>. A one-dimensional array of
  length \<open>c\<close> (a row \<open>A[i]\<close>) is kept as a \<open>1 \<times> c\<close> array: broadcasting treats both
  alike, so \<open>[np.newaxis]\<close> on a row is the identity here.
\<close>

record 'a ndarray =
  nrows :: nat
  ncols :: nat
  buf :: "'a list"

definition wf_arr :: "'a ndarray \<Rightarrow> bool" where
  "wf_arr A \<longleftrightarrow> length (buf A) = nrows A * ncols A"

definition elt :: "'a ndarray \<Rightarrow> nat \<Rightarrow> nat \<Rightarrow> 'a" where
  "elt A i j = buf A ! (i * ncols A + j)"

definition mk :: "nat \<Rightarrow> nat \<Rightarrow> (nat \<Rightarrow> nat \<Rightarrow> 'a) \<Rightarrow> 'a ndarray" where
  "mk r c f = \<lparr>nrows = r, ncols = c, buf = map (\<lambda>k. f (k div c) (k mod c)) [0..<r * c]\<rparr>"

text \<open>\<open>np.ones((r, c))\<close>, \<open>np.zeros((r, c))\<close>.\<close>

definition ones :: "nat \<Rightarrow> nat \<Rightarrow> real ndarray" where
  "ones r c = mk r c (\<lambda>i j. 1)"

definition zeros :: "nat \<Rightarrow> nat \<Rightarrow> real ndarray" where
  "zeros r c = mk r c (\<lambda>i j. 0)"

text \<open>\<open>np.column_stack([A, B])\<close> of two-dimensional arrays: the row counts must agree.\<close>

definition column_stack :: "'a ndarray \<Rightarrow> 'a ndarray \<Rightarrow> error + 'a ndarray" where
  "column_stack A B =
     (if nrows A = nrows B
      then Inr (mk (nrows A) (ncols A + ncols B)
                  (\<lambda>i j. if j < ncols A then elt A i j else elt B i (j - ncols A)))
      else Inl ValueError)"

text \<open>\<open>A.T\<close>.\<close>

definition transpose_arr :: "'a ndarray \<Rightarrow> 'a ndarray" where
  "transpose_arr A = mk (ncols A) (nrows A) (\<lambda>i j. elt A j i)"

text \<open>\<open>A @ B\<close>: the inner dimensions must agree.\<close>

definition matmul :: "real ndarray \<Rightarrow> real ndarray \<Rightarrow> error + real ndarray" where
  "matmul A B =
     (if ncols A = nrows B
      then Inr (mk (nrows A) (ncols B) (\<lambda>i j. \<Sum>l<ncols A. elt A i l * elt B l j))
      else Inl ValueError)"

text \<open>A function applied to every entry (\<open>np.log(A)\<close>, \<open>1 - A\<close>, \<open>pow(A, 2)\<close>, \<open>c * A\<close>).\<close>

definition ew1 :: "('a \<Rightarrow> 'b) \<Rightarrow> 'a ndarray \<Rightarrow> 'b ndarray" where
  "ew1 f A = mk (nrows A) (ncols A) (\<lambda>i j. f (elt A i j))"

text \<open>
  A binary operation entry by entry, with numpy's broadcasting: along each axis the two
  sizes are equal or one of them is 1 (that operand is then repeated), otherwise the
  operation raises.
\<close>

definition bdim :: "nat \<Rightarrow> nat \<Rightarrow> error + nat" where
  "bdim a b = (if a = b then Inr a else if a = 1 then Inr b else if b = 1 then Inr a
               else Inl ValueError)"

definition belt :: "'a ndarray \<Rightarrow> nat \<Rightarrow> nat \<Rightarrow> 'a" where
  "belt A i j = elt A (if nrows A = 1 then 0 else i) (if ncols A = 1 then 0 else j)"

definition ew2 :: "('a \<Rightarrow> 'b \<Rightarrow> 'c) \<Rightarrow> 'a ndarray \<Rightarrow> 'b ndarray \<Rightarrow> error + 'c ndarray" where
  "ew2 f A B =
     ebind (bdim (nrows A) (nrows B)) (\<lambda>r.
     ebind (bdim (ncols A) (ncols B)) (\<lambda>c.
     Inr (mk r c (\<lambda>i j. f (belt A i j) (belt B i j)))))"

text \<open>\<open>A[:, 1:]\<close>; with no column at all the slice is empty.\<close>

definition cols_from1 :: "'a ndarray \<Rightarrow> 'a ndarray" where
  "cols_from1 A = mk (nrows A) (ncols A - 1) (\<lambda>i j. elt A i (j + 1))"

text \<open>\<open>np.sum(A)\<close>, for an array of reals and for one that may hold floats that are not finite.\<close>

definition np_sum :: "real ndarray \<Rightarrow> real" where
  "np_sum A = sum_list (buf A)"

definition np_sum_fl :: "fl ndarray \<Rightarrow> fl" where
  "np_sum_fl A = foldl fl_add (Some 0) (buf A)"

section \<open>Practica5: forward propagation and cost\<close>

text \<open>
  Modelled from the spec: \<open>utils.sigmoid\<close> (\<open>import utils as ut\<close>) is not among the
  sources. The spec (4.1) gives the activation as a map applied to every entry that keeps
  the shape, the logistic function, which in floating point may saturate to 0 or 1 exactly.
  The scalar function is the parameter \<open>sg\<close> of everything below.
\<close>

definition ut_sigmoid :: "(real \<Rightarrow> real) \<Rightarrow> real ndarray \<Rightarrow> real ndarray" where
  "ut_sigmoid sg z = ew1 sg z"

text \<open>
  Modelled from the spec: \<open>utils.sigmoid\<close> is not among the sources; this is the logistic
  function with the saturation that the spec allows (4.1: ``acceptable to let extreme
  values saturate to 0 or 1 exactly in floating-point''), placed where IEEE doubles have it.
  The quotient \<open>1 / (1 + e^-z)\<close> is exactly 1 once \<open>e^-z \<le> 2^-53\<close>, since \<open>1 + e^-z\<close>
  then rounds to 1: that is \<open>z \<ge> 53 ln 2\<close>, about 36.74. It is exactly 0 once \<open>e^-z\<close>
  overflows to \<open>inf\<close>, from \<open>2^1024\<close> on: that is \<open>z \<le> -1024 ln 2\<close>, about -709.78.
  Between the two the rounding of the quotient is not modelled. Only the counterexample
  and the witness of claim C3 use this function.
\<close>

definition sigmoid_fp :: "real \<Rightarrow> real" where
  "sigmoid_fp z =
     (if 53 * ln 2 \<le> z then 1 else if z \<le> - (1024 * ln 2) then 0 else sigmoid z)"

text \<open>
  \<^verbatim>\<open>
  def feed_forward(theta1, theta2, X):
      m = X.shape[0]
      a1 = np.column_stack([np.ones((m, 1)), X])
      z2 = a1 @ theta1.T
      a2 = ut.sigmoid(z2)
      a2 = np.column_stack([np.ones((m, 1)), a2])
      z3 = a2 @ theta2.T
      a3 = ut.sigmoid(z3)
      return a3, a2, a1
  \<close>
\<close>

definition feed_forward ::
  "(real \<Rightarrow> real) \<Rightarrow> real ndarray \<Rightarrow> real ndarray \<Rightarrow> real ndarray
     \<Rightarrow> error + (real ndarray \<times> real ndarray \<times> real ndarray)" where
  "feed_forward sg theta1 theta2 X =
     (let m = nrows X in
      ebind (column_stack (ones m 1) X) (\<lambda>a1.
      ebind (matmul a1 (transpose_arr theta1)) (\<lambda>z2.
      let a2 = ut_sigmoid sg z2 in
      ebind (column_stack (ones m 1) a2) (\<lambda>a2.
      ebind (matmul a2 (transpose_arr theta2)) (\<lambda>z3.
      let a3 = ut_sigmoid sg z3 in
      Inr (a3, a2, a1))))))"

text \<open>
  \<^verbatim>\<open>
  def cost(theta1, theta2, X, y, lambda_):
      m = X.shape[0]
      h0, _, _ = feed_forward(theta1, theta2, X)
      cost = np.sum((y * np.log(h0)) + ((1 - y) * np.log(1 - h0)))
      reg_factor = np.sum(pow(theta1[:, 1:], 2)) + np.sum(pow(theta2[:, 1:], 2))
      J = (-cost / m) + (lambda_ * reg_factor / (2 * m))
      return J
  \<close>
  The result is a float that may fail to be finite.
\<close>

definition cost ::
  "(real \<Rightarrow> real) \<Rightarrow> real ndarray \<Rightarrow> real ndarray \<Rightarrow> real ndarray \<Rightarrow> real ndarray \<Rightarrow> real
     \<Rightarrow> error + fl" where
  "cost sg theta1 theta2 X y lambda =
     (let m = nrows X in
      ebind (feed_forward sg theta1 theta2 X) (\<lambda>(h0, _, _).
      ebind (ew2 fl_mul y (ew1 np_log h0)) (\<lambda>p.
      ebind (ew2 fl_mul (ew1 (\<lambda>v. 1 - v) y) (ew1 np_log (ew1 (\<lambda>v. 1 - v) h0))) (\<lambda>q.
      ebind (ew2 fl_add p q) (\<lambda>t.
      let cost = np_sum_fl t;
          reg_factor = np_sum (ew1 (\<lambda>v. v ^ 2) (cols_from1 theta1))
                     + np_sum (ew1 (\<lambda>v. v ^ 2) (cols_from1 theta2));
          J = fl_add (fl_div (fl_neg cost) m) (fl_div (Some (lambda * reg_factor)) (2 * m))
      in Inr J)))))"

section \<open>The activations and the cost as the specification writes them\<close>

text \<open>Section 4.2 of the specification, entry by entry.\<close>

definition a1_spec :: "real ndarray \<Rightarrow> real ndarray" where
  "a1_spec X = mk (nrows X) (ncols X + 1) (\<lambda>i j. if j = 0 then 1 else elt X i (j - 1))"

definition a2_spec :: "(real \<Rightarrow> real) \<Rightarrow> real ndarray \<Rightarrow> real ndarray \<Rightarrow> real ndarray" where
  "a2_spec sg theta1 X =
     mk (nrows X) (nrows theta1 + 1)
        (\<lambda>i j. if j = 0 then 1
                else sg (\<Sum>l<ncols X + 1. elt (a1_spec X) i l * elt theta1 (j - 1) l))"

definition a3_spec ::
  "(real \<Rightarrow> real) \<Rightarrow> real ndarray \<Rightarrow> real ndarray \<Rightarrow> real ndarray \<Rightarrow> real ndarray" where
  "a3_spec sg theta1 theta2 X =
     mk (nrows X) (nrows theta2)
        (\<lambda>i j. sg (\<Sum>l<nrows theta1 + 1. elt (a2_spec sg theta1 X) i l * elt theta2 j l))"

text \<open>The array summed by \<open>cost\<close>, and the sum of squares of the columns after the first.\<close>

definition log_terms :: "real ndarray \<Rightarrow> real ndarray \<Rightarrow> fl ndarray" where
  "log_terms y h0 =
     mk (nrows h0) (ncols h0)
        (\<lambda>i j. fl_add (fl_mul (elt y i j) (np_log (elt h0 i j)))
                       (fl_mul (1 - elt y i j) (np_log (1 - elt h0 i j))))"

definition reg_sum :: "real ndarray \<Rightarrow> real" where
  "reg_sum theta = (\<Sum>j<nrows theta. \<Sum>l<ncols theta - 1. (elt theta j (l + 1)) ^ 2)"

section \<open>Arrays in the store\<close>

text \<open>
  numpy arrays are objects: \<open>grad1 += ...\<close>, \<open>grad1[:, 0] /= m\<close>, \<open>grad1[:, 1:] = ...\<close>
  and \<open>theta1 -= ...\<close> write into the buffer of an array that the caller may hold too.
  The store lists the arrays alive; a reference is an index into it, and a new array
  goes to the end. Arrays that are only read after they are built (the activations, the
  rows and products inside the loop) stay values.
\<close>

type_synonym ref = nat
type_synonym store = "real ndarray list"

definition alloc :: "store \<Rightarrow> real ndarray \<Rightarrow> ref \<times> store" where
  "alloc s A = (length s, s @ [A])"

text \<open>\<open>A[i]\<close> (also \<open>A[i, np.newaxis]\<close>): row \<open>i\<close>, as a \<open>1 \<times> c\<close> array.\<close>

definition row :: "'a ndarray \<Rightarrow> nat \<Rightarrow> error + 'a ndarray" where
  "row A i = (if i < nrows A then Inr (mk 1 (ncols A) (\<lambda>_ j. elt A i j)) else Inl IndexError)"

text \<open>
  An operand broadcast into a given shape, as an in-place operation or an assignment to
  a slice needs it: the target's shape does not change.
\<close>

definition bcast_to :: "nat \<Rightarrow> nat \<Rightarrow> 'a ndarray \<Rightarrow> error + 'a ndarray" where
  "bcast_to r c D =
     (if (nrows D = r \<or> nrows D = 1) \<and> (ncols D = c \<or> ncols D = 1)
      then Inr (mk r c (belt D)) else Inl ValueError)"

text \<open>\<open>A += D\<close> and \<open>A -= D\<close>, for the array \<open>A\<close> at reference \<open>r\<close>.\<close>

definition iop :: "(real \<Rightarrow> real \<Rightarrow> real) \<Rightarrow> store \<Rightarrow> ref \<Rightarrow> real ndarray \<Rightarrow> error + store" where
  "iop f s r D =
     (let A = s ! r in
      ebind (bcast_to (nrows A) (ncols A) D) (\<lambda>D'.
      Inr (s[r := mk (nrows A) (ncols A) (\<lambda>i j. f (elt A i j) (elt D' i j))])))"

text \<open>
  \<open>A / m\<close> for the integer \<open>m = X.shape[0]\<close>. With \<open>m = 0\<close> every entry becomes
  \<open>nan\<close> or \<open>inf\<close>; an array with no entry stays as it is.
\<close>

definition div_count :: "real ndarray \<Rightarrow> nat \<Rightarrow> error + real ndarray" where
  "div_count A m =
     (if m = 0 \<and> nrows A * ncols A \<noteq> 0 then Inl NotFinite
      else Inr (ew1 (\<lambda>v. v / real m) A))"

text \<open>\<open>A[:, 0] /= m\<close>: column 0 must exist.\<close>

definition idiv_col0 :: "store \<Rightarrow> ref \<Rightarrow> nat \<Rightarrow> error + store" where
  "idiv_col0 s r m =
     (let A = s ! r in
      if ncols A = 0 then Inl IndexError
      else if m = 0 \<and> nrows A \<noteq> 0 then Inl NotFinite
      else Inr (s[r := mk (nrows A) (ncols A)
                          (\<lambda>i j. if j = 0 then elt A i j / real m else elt A i j)]))"

text \<open>\<open>A[:, 1:] = E\<close>.\<close>

definition set_cols_from1 :: "store \<Rightarrow> ref \<Rightarrow> real ndarray \<Rightarrow> error + store" where
  "set_cols_from1 s r E =
     (let A = s ! r in
      ebind (bcast_to (nrows A) (ncols A - 1) E) (\<lambda>E'.
      Inr (s[r := mk (nrows A) (ncols A)
                     (\<lambda>i j. if j = 0 then elt A i j else elt E' i (j - 1))])))"

text \<open>\<open>for i in xs: state = body(state, i)\<close>, stopping at the first exception.\<close>

fun for_loop :: "nat list \<Rightarrow> ('s \<Rightarrow> nat \<Rightarrow> error + 's) \<Rightarrow> 's \<Rightarrow> error + 's" where
  "for_loop [] body s = Inr s"
| "for_loop (i # is) body s = ebind (body s i) (for_loop is body)"

section \<open>Practica5: backpropagation and the training loop\<close>

text \<open>
  The body of the loop over the examples:
  \<^verbatim>\<open>
  d3 = (a3[i] - y[i])[np.newaxis]
  gZ = (a2[i] * (1 - a2[i]))
  d2 = (d3 @ theta2 * gZ)
  d2 = d2[:, 1:]
  grad1 += d2.T @ a1[i, np.newaxis]
  grad2 += d3.T @ a2[i, np.newaxis]
  \<close>
  \<open>theta2\<close>, \<open>y\<close>, \<open>grad1\<close> and \<open>grad2\<close> are read through the store at every turn.
\<close>

definition backprop_body ::
  "ref \<Rightarrow> ref \<Rightarrow> real ndarray \<Rightarrow> real ndarray \<Rightarrow> real ndarray \<Rightarrow> ref \<Rightarrow> ref
     \<Rightarrow> store \<Rightarrow> nat \<Rightarrow> error + store" where
  "backprop_body theta2 y a3 a2 a1 grad1 grad2 s i =
     ebind (row a3 i) (\<lambda>a3_i.
     ebind (row (s ! y) i) (\<lambda>y_i.
     ebind (ew2 (\<lambda>a b. a - b) a3_i y_i) (\<lambda>d3.
     ebind (row a2 i) (\<lambda>a2_i.
     ebind (ew2 (\<lambda>a b. a * b) a2_i (ew1 (\<lambda>v. 1 - v) a2_i)) (\<lambda>gZ.
     ebind (matmul d3 (s ! theta2)) (\<lambda>d3_theta2.
     ebind (ew2 (\<lambda>a b. a * b) d3_theta2 gZ) (\<lambda>d2.
     let d2 = cols_from1 d2 in
     ebind (row a1 i) (\<lambda>a1_i.
     ebind (matmul (transpose_arr d2) a1_i) (\<lambda>D1.
     ebind (iop (\<lambda>a b. a + b) s grad1 D1) (\<lambda>s1.
     ebind (row a2 i) (\<lambda>a2_i.
     ebind (matmul (transpose_arr d3) a2_i) (\<lambda>D2.
     iop (\<lambda>a b. a + b) s1 grad2 D2))))))))))))"

text \<open>
  \<^verbatim>\<open>
  def backprop(theta1, theta2, X, y, lambda_):
      m = X.shape[0]
      J = cost(theta1, theta2, X, y, lambda_)
      grad1 = np.zeros(theta1.shape)
      grad2 = np.zeros(theta2.shape)
      a3, a2, a1 = feed_forward(theta1, theta2, X)
      for i in range(m):
          ...
      grad1[:, 0] /= m
      grad2[:, 0] /= m
      grad1[:, 1:] = (grad1[:, 1:] + lambda_ * theta1[:, 1:]) / m
      grad2[:, 1:] = (grad2[:, 1:] + lambda_ * theta2[:, 1:]) / m
      return J, grad1, grad2
  \<close>
  The arguments are references; the result is \<open>J\<close>, the references of the two new
  arrays, and the store after the call.
\<close>

definition backprop ::
  "(real \<Rightarrow> real) \<Rightarrow> store \<Rightarrow> ref \<Rightarrow> ref \<Rightarrow> ref \<Rightarrow> ref \<Rightarrow> real
     \<Rightarrow> error + ((fl \<times> ref \<times> ref) \<times> store)" where
  "backprop sg s theta1 theta2 X y lambda =
     (let m = nrows (s ! X) in
      ebind (cost sg (s ! theta1) (s ! theta2) (s ! X) (s ! y) lambda) (\<lambda>J.
      let (grad1, s1) = alloc s (zeros (nrows (s ! theta1)) (ncols (s ! theta1)));
          (grad2, s2) = alloc s1 (zeros (nrows (s1 ! theta2)) (ncols (s1 ! theta2))) in
      ebind (feed_forward sg (s2 ! theta1) (s2 ! theta2) (s2 ! X)) (\<lambda>(a3, a2, a1).
      ebind (for_loop [0..<m] (backprop_body theta2 y a3 a2 a1 grad1 grad2) s2) (\<lambda>s3.
      ebind (idiv_col0 s3 grad1 m) (\<lambda>s4.
      ebind (idiv_col0 s4 grad2 m) (\<lambda>s5.
      ebind (ew2 (\<lambda>a b. a + b) (cols_from1 (s5 ! grad1))
                 (ew1 (\<lambda>v. lambda * v) (cols_from1 (s5 ! theta1)))) (\<lambda>e1.
      ebind (div_count e1 m) (\<lambda>e1.
      ebind (set_cols_from1 s5 grad1 e1) (\<lambda>s6.
      ebind (ew2 (\<lambda>a b. a + b) (cols_from1 (s6 ! grad2))
                 (ew1 (\<lambda>v. lambda * v) (cols_from1 (s6 ! theta2)))) (\<lambda>e2.
      ebind (div_count e2 m) (\<lambda>e2.
      ebind (set_cols_from1 s6 grad2 e2) (\<lambda>s7.
      Inr ((J, grad1, grad2), s7)))))))))))))"

text \<open>
  \<^verbatim>\<open>
  def gradient(theta1, theta2, X, y, num_iters, alpha, lambda_=0):
      for _ in range(num_iters):
          J, grad1, grad2 = backprop(theta1, theta2, X, y, lambda_)
          theta1 -= alpha * grad1
          theta2 -= alpha * grad2
      return J, theta1, theta2
  \<close>
  The loop carries the local variable \<open>J\<close>, unbound (\<open>None\<close>) until the first turn
  assigns it, and the store. \<open>range(num_iters)\<close> is empty for \<open>num_iters \<le> 0\<close>. The
  arrays behind \<open>theta1\<close> and \<open>theta2\<close> are updated in place and the same references
  are returned.
\<close>

definition gradient_body ::
  "(real \<Rightarrow> real) \<Rightarrow> ref \<Rightarrow> ref \<Rightarrow> ref \<Rightarrow> ref \<Rightarrow> real \<Rightarrow> real
     \<Rightarrow> fl option \<times> store \<Rightarrow> nat \<Rightarrow> error + (fl option \<times> store)" where
  "gradient_body sg theta1 theta2 X y alpha lambda st i =
     ebind (backprop sg (snd st) theta1 theta2 X y lambda) (\<lambda>((J, grad1, grad2), s1).
     ebind (iop (\<lambda>a b. a - b) s1 theta1 (ew1 (\<lambda>v. alpha * v) (s1 ! grad1))) (\<lambda>s2.
     ebind (iop (\<lambda>a b. a - b) s2 theta2 (ew1 (\<lambda>v. alpha * v) (s2 ! grad2))) (\<lambda>s3.
     Inr (Some J, s3))))"

definition gradient ::
  "(real \<Rightarrow> real) \<Rightarrow> store \<Rightarrow> ref \<Rightarrow> ref \<Rightarrow> ref \<Rightarrow> ref \<Rightarrow> int \<Rightarrow> real \<Rightarrow> real
     \<Rightarrow> error + ((fl \<times> ref \<times> ref) \<times> store)" where
  "gradient sg s theta1 theta2 X y num_iters alpha lambda =
     ebind (for_loop [0..<nat num_iters] (gradient_body sg theta1 theta2 X y alpha lambda)
              (None, s)) (\<lambda>(J, s').
     case J of None \<Rightarrow> Inl UnboundLocalError
             | Some J \<Rightarrow> Inr ((J, theta1, theta2), s'))"

text \<open>
  \<^verbatim>\<open>
  def backprop_min(theta, X, y, t1_s, t2_s, lambda_):
      theta1 = np.reshape(theta[:t1_s[0] * t1_s[1]], (t1_s[0], t1_s[1]))
      theta2 = np.reshape(theta[t1_s[0] * t1_s[1]:], (t2_s[0], t2_s[1]))
      J, grad1, grad2 = backprop(theta1, theta2, X, y, lambda_)
      return J, np.concatenate([np.ravel(grad1), np.ravel(grad2)])
  \<close>
  \<open>theta\<close> is a flat vector and the shapes are pairs of natural numbers. \<open>np.reshape\<close>
  raises unless the number of entries fits; a slice takes what there is. The two
  reshaped arrays are views of \<open>theta\<close> that nothing writes to, kept here as two arrays
  of their own.
\<close>

definition np_reshape :: "'a list \<Rightarrow> nat \<times> nat \<Rightarrow> error + 'a ndarray" where
  "np_reshape v sh =
     (if length v = fst sh * snd sh then Inr \<lparr>nrows = fst sh, ncols = snd sh, buf = v\<rparr>
      else Inl ValueError)"

definition np_ravel :: "'a ndarray \<Rightarrow> 'a list" where
  "np_ravel A = buf A"

definition unflatten ::
  "real list \<Rightarrow> nat \<times> nat \<Rightarrow> nat \<times> nat \<Rightarrow> error + (real ndarray \<times> real ndarray)" where
  "unflatten theta t1_s t2_s =
     ebind (np_reshape (take (fst t1_s * snd t1_s) theta) t1_s) (\<lambda>theta1.
     ebind (np_reshape (drop (fst t1_s * snd t1_s) theta) t2_s) (\<lambda>theta2.
     Inr (theta1, theta2)))"

definition flatten :: "real ndarray \<Rightarrow> real ndarray \<Rightarrow> real list" where
  "flatten grad1 grad2 = np_ravel grad1 @ np_ravel grad2"

definition backprop_min ::
  "(real \<Rightarrow> real) \<Rightarrow> store \<Rightarrow> real list \<Rightarrow> ref \<Rightarrow> ref \<Rightarrow> nat \<times> nat \<Rightarrow> nat \<times> nat \<Rightarrow> real
     \<Rightarrow> error + ((fl \<times> real list) \<times> store)" where
  "backprop_min sg s theta X y t1_s t2_s lambda =
     ebind (unflatten theta t1_s t2_s) (\<lambda>(theta1_v, theta2_v).
     let (theta1, s1) = alloc s theta1_v;
         (theta2, s2) = alloc s1 theta2_v in
     ebind (backprop sg s2 theta1 theta2 X y lambda) (\<lambda>((J, grad1, grad2), s3).
     Inr ((J, flatten (s3 ! grad1) (s3 ! grad2)), s3)))"

section \<open>Gradients and descent steps as the specification writes them\<close>

text \<open>
  Section 4.4: for example \<open>i\<close>, \<open>d3 = a3[i] - y[i]\<close>, and \<open>d2\<close> is
  \<open>(d3 . theta2) * gZ\<close> with \<open>gZ = a2[i] * (1 - a2[i])\<close>, its first column dropped. The
  outer products are summed over the examples; column 0 of the sum is divided by \<open>m\<close>,
  the other columns get \<open>lambda * theta\<close> added before the division.
\<close>

definition d3_spec :: "real ndarray \<Rightarrow> real ndarray \<Rightarrow> nat \<Rightarrow> nat \<Rightarrow> real" where
  "d3_spec a3 y i c = elt a3 i c - elt y i c"

definition d2_spec ::
  "real ndarray \<Rightarrow> real ndarray \<Rightarrow> real ndarray \<Rightarrow> real ndarray \<Rightarrow> nat \<Rightarrow> nat \<Rightarrow> real" where
  "d2_spec theta2 a3 a2 y i j =
     (\<Sum>c<nrows theta2. d3_spec a3 y i c * elt theta2 c (j + 1))
       * (elt a2 i (j + 1) * (1 - elt a2 i (j + 1)))"

definition finalize_spec :: "nat \<Rightarrow> real \<Rightarrow> real ndarray \<Rightarrow> (nat \<Rightarrow> nat \<Rightarrow> real) \<Rightarrow> real ndarray" where
  "finalize_spec m lambda theta acc =
     mk (nrows theta) (ncols theta)
        (\<lambda>j l. if l = 0 then acc j l / real m
                else (acc j l + lambda * elt theta j l) / real m)"

definition grad1_spec ::
  "(real \<Rightarrow> real) \<Rightarrow> real ndarray \<Rightarrow> real ndarray \<Rightarrow> real ndarray \<Rightarrow> real ndarray \<Rightarrow> real
     \<Rightarrow> real ndarray" where
  "grad1_spec sg theta1 theta2 X y lambda =
     (let a3 = a3_spec sg theta1 theta2 X; a2 = a2_spec sg theta1 X; a1 = a1_spec X in
      finalize_spec (nrows X) lambda theta1
        (\<lambda>j l. \<Sum>i<nrows X. d2_spec theta2 a3 a2 y i j * elt a1 i l))"

definition grad2_spec ::
  "(real \<Rightarrow> real) \<Rightarrow> real ndarray \<Rightarrow> real ndarray \<Rightarrow> real ndarray \<Rightarrow> real ndarray \<Rightarrow> real
     \<Rightarrow> real ndarray" where
  "grad2_spec sg theta1 theta2 X y lambda =
     (let a3 = a3_spec sg theta1 theta2 X; a2 = a2_spec sg theta1 X in
      finalize_spec (nrows X) lambda theta2
        (\<lambda>c l. \<Sum>i<nrows X. d3_spec a3 y i c * elt a2 i l))"

text \<open>Section 4.5(a): one descent step, \<open>theta \<leftarrow> theta - alpha * grad\<close> for both matrices.\<close>

definition axpy :: "real \<Rightarrow> real ndarray \<Rightarrow> real ndarray \<Rightarrow> real ndarray" where
  "axpy alpha theta grad =
     mk (nrows theta) (ncols theta) (\<lambda>i j. elt theta i j - alpha * elt grad i j)"

definition descent_step ::
  "(real \<Rightarrow> real) \<Rightarrow> real ndarray \<Rightarrow> real ndarray \<Rightarrow> real \<Rightarrow> real
     \<Rightarrow> real ndarray \<times> real ndarray \<Rightarrow> real ndarray \<times> real ndarray" where
  "descent_step sg X y alpha lambda th =
     (axpy alpha (fst th) (grad1_spec sg (fst th) (snd th) X y lambda),
      axpy alpha (snd th) (grad2_spec sg (fst th) (snd th) X y lambda))"

chapter \<open>Properties\<close>

section \<open>The sigmoid\<close>

lemma np_e_power: "(exp 1) powr (- z) = exp (- z)" for z :: real
  by (simp add: powr_def)

lemma sigmoid_exp: "sigmoid z = 1 / (1 + exp (- z))"
  by (simp add: sigmoid_def np_e_power)

lemma sigmoid_bounds: "0 < sigmoid z \<and> sigmoid z < 1"
proof -
  have "0 < exp (- z)" by simp
  then show ?thesis by (simp add: sigmoid_exp add_pos_pos)
qed

text \<open>
  Claim C7. The sigmoid computes \<open>1 / (1 + e^-z)\<close>; over the reals its value lies strictly
  between 0 and 1 for every \<open>z\<close>, it is exactly one half at 0, and it is strictly
  increasing.
\<close>

theorem sigmoid_range_half_mono:
  "sigmoid z = 1 / (1 + exp (- z))
   \<and> 0 < sigmoid z \<and> sigmoid z < 1
   \<and> sigmoid 0 = 1 / 2
   \<and> (z1 < z2 \<longrightarrow> sigmoid z1 < sigmoid z2)"
proof -
  have pos: "0 < 1 + exp (- w)" for w :: real
    by (simp add: add_pos_pos)
  have half: "sigmoid 0 = 1 / 2"
    by (simp add: sigmoid_exp)
  have mono: "sigmoid z1 < sigmoid z2" if "z1 < z2"
  proof -
    from that have "exp (- z2) < exp (- z1)" by simp
    then have "1 + exp (- z2) < 1 + exp (- z1)" by simp
    then show ?thesis
      using pos [of z2] by (simp add: sigmoid_exp frac_less2)
  qed
  show ?thesis
    using sigmoid_bounds [of z] half mono by (simp add: sigmoid_exp)
qed

theorem sigmoid_range_half_mono_witness:
  "(0::real) < 1 \<and> sigmoid 0 < sigmoid 1"
  using sigmoid_range_half_mono [of 0 0 1] by simp

section \<open>Arrays: entries, extensionality, sums\<close>

lemma nrows_mk [simp]: "nrows (mk r c f) = r" by (simp add: mk_def)

lemma ncols_mk [simp]: "ncols (mk r c f) = c" by (simp add: mk_def)

lemma wf_mk [simp]: "wf_arr (mk r c f)" by (simp add: mk_def wf_arr_def)

lemma idx_lt: "i < r \<Longrightarrow> j < c \<Longrightarrow> i * c + j < r * (c::nat)"
proof -
  assume a: "i < r" "j < c"
  then have "i * c + j < i * c + c" by simp
  also have "\<dots> = Suc i * c" by simp
  also have "\<dots> \<le> r * c" using a(1) by (intro mult_le_mono1) simp
  finally show ?thesis .
qed

lemma elt_mk [simp]: "i < r \<Longrightarrow> j < c \<Longrightarrow> elt (mk r c f) i j = f i j"
  by (simp add: elt_def mk_def idx_lt)

lemma ndarray_eqI:
  assumes "wf_arr A" "wf_arr B" "nrows A = nrows B" "ncols A = ncols B"
    and "\<And>i j. i < nrows A \<Longrightarrow> j < ncols A \<Longrightarrow> elt A i j = elt B i j"
  shows "A = (B :: 'a ndarray)"
proof -
  have len: "length (buf A) = length (buf B)"
    using assms(1-4) by (simp add: wf_arr_def)
  have "buf A ! k = buf B ! k" if "k < length (buf A)" for k
  proof -
    let ?c = "ncols A"
    from that have k: "k < nrows A * ?c" using assms(1) by (simp add: wf_arr_def)
    then have c: "0 < ?c" by (cases "?c = 0") auto
    have i: "k div ?c < nrows A" using k c by (simp add: less_mult_imp_div_less)
    have j: "k mod ?c < ?c" using c by simp
    have "elt A (k div ?c) (k mod ?c) = elt B (k div ?c) (k mod ?c)"
      using assms(5) [OF i j] .
    then show ?thesis using assms(4) by (simp add: elt_def)
  qed
  then have "buf A = buf B" using len by (simp add: nth_equalityI)
  then show ?thesis using assms(3,4) by simp
qed

lemma mk_cong: "(\<And>i j. i < r \<Longrightarrow> j < c \<Longrightarrow> f i j = g i j) \<Longrightarrow> mk r c f = mk r c g"
  by (rule ndarray_eqI) simp_all

lemma mk_elt: "wf_arr A \<Longrightarrow> mk (nrows A) (ncols A) (elt A) = A"
  by (rule ndarray_eqI) simp_all

lemma ebind_Inr [simp]: "ebind (Inr x) f = f x" by (simp add: ebind_def)

lemma ebind_Inl [simp]: "ebind (Inl e) f = Inl e" by (simp add: ebind_def)

lemma ebind_eq_Inr: "ebind r f = Inr y \<longleftrightarrow> (\<exists>x. r = Inr x \<and> f x = Inr y)"
  by (cases r) simp_all

lemma nrows_ones [simp]: "nrows (ones r c) = r" by (simp add: ones_def)

lemma ncols_ones [simp]: "ncols (ones r c) = c" by (simp add: ones_def)

lemma elt_ones [simp]: "i < r \<Longrightarrow> j < c \<Longrightarrow> elt (ones r c) i j = 1" by (simp add: ones_def)

lemma nrows_ew1 [simp]: "nrows (ew1 f A) = nrows A" by (simp add: ew1_def)

lemma ncols_ew1 [simp]: "ncols (ew1 f A) = ncols A" by (simp add: ew1_def)

lemma wf_ew1 [simp]: "wf_arr (ew1 f A)" by (simp add: ew1_def)

lemma elt_ew1 [simp]: "i < nrows A \<Longrightarrow> j < ncols A \<Longrightarrow> elt (ew1 f A) i j = f (elt A i j)"
  by (simp add: ew1_def)

lemma nrows_transpose [simp]: "nrows (transpose_arr A) = ncols A" by (simp add: transpose_arr_def)

lemma ncols_transpose [simp]: "ncols (transpose_arr A) = nrows A" by (simp add: transpose_arr_def)

lemma elt_transpose [simp]:
  "i < ncols A \<Longrightarrow> j < nrows A \<Longrightarrow> elt (transpose_arr A) i j = elt A j i"
  by (simp add: transpose_arr_def)

section \<open>Forward propagation\<close>

lemma column_stack_ones:
  "column_stack (ones (nrows A) (Suc 0)) A =
     Inr (mk (nrows A) (Suc (ncols A)) (\<lambda>i j. if j = 0 then 1 else elt A i (j - Suc 0)))"
  unfolding column_stack_def
  by (auto intro!: mk_cong)

lemma feed_forward_spec:
  assumes "ncols theta1 = ncols X + 1" "ncols theta2 = nrows theta1 + 1"
  shows "feed_forward sg theta1 theta2 X =
           Inr (a3_spec sg theta1 theta2 X, a2_spec sg theta1 X, a1_spec X)"
proof -
  have a1: "column_stack (ones (nrows X) 1) X = Inr (a1_spec X)"
    by (auto simp: column_stack_ones a1_spec_def intro!: mk_cong)
  let ?z2 = "mk (nrows X) (nrows theta1)
               (\<lambda>i j. \<Sum>l<ncols X + 1. elt (a1_spec X) i l * elt theta1 j l)"
  have z2: "matmul (a1_spec X) (transpose_arr theta1) = Inr ?z2"
    using assms(1) by (auto simp: matmul_def a1_spec_def intro!: mk_cong)
  have a2: "column_stack (ones (nrows X) 1) (ut_sigmoid sg ?z2) = Inr (a2_spec sg theta1 X)"
    using column_stack_ones [of "ut_sigmoid sg ?z2"]
    by (auto simp: ut_sigmoid_def a2_spec_def intro!: mk_cong)
  let ?z3 = "mk (nrows X) (nrows theta2)
               (\<lambda>i j. \<Sum>l<nrows theta1 + 1. elt (a2_spec sg theta1 X) i l * elt theta2 j l)"
  have z3: "matmul (a2_spec sg theta1 X) (transpose_arr theta2) = Inr ?z3"
    using assms(2) by (auto simp: matmul_def a2_spec_def intro!: mk_cong)
  have a3: "ut_sigmoid sg ?z3 = a3_spec sg theta1 theta2 X"
    by (auto simp: ut_sigmoid_def a3_spec_def ew1_def intro!: mk_cong)
  show ?thesis
    using a1 z2 a2 z3 a3 by (simp add: feed_forward_def Let_def)
qed

text \<open>
  Claim C4. For \<open>theta1\<close> of shape \<open>h \<times> (n+1)\<close>, \<open>theta2\<close> of shape
  \<open>k \<times> (h+1)\<close> and \<open>X\<close> of shape \<open>m \<times> n\<close>, \<open>feed_forward\<close> returns
  \<open>(a3, a2, a1)\<close>: \<open>a1\<close> is \<open>X\<close> with a column of ones in front, of shape
  \<open>m \<times> (n+1)\<close>; \<open>a2\<close> is the activation of \<open>a1 . theta1^T\<close> with a column of ones
  in front, of shape \<open>m \<times> (h+1)\<close>; \<open>a3\<close> is the activation of \<open>a2 . theta2^T\<close>,
  of shape \<open>m \<times> k\<close>. The activation \<open>sg\<close> is any scalar function, the sigmoid among
  them.
\<close>

theorem feed_forward_activations:
  assumes "nrows theta1 = h" "ncols theta1 = n + 1" "nrows theta2 = k" "ncols theta2 = h + 1"
    and "nrows X = m" "ncols X = n"
  shows "\<exists>a3 a2 a1. feed_forward sg theta1 theta2 X = Inr (a3, a2, a1)
           \<and> wf_arr a1 \<and> nrows a1 = m \<and> ncols a1 = n + 1
           \<and> (\<forall>i<m. elt a1 i 0 = 1 \<and> (\<forall>j<n. elt a1 i (j + 1) = elt X i j))
           \<and> wf_arr a2 \<and> nrows a2 = m \<and> ncols a2 = h + 1
           \<and> (\<forall>i<m. elt a2 i 0 = 1
                 \<and> (\<forall>j<h. elt a2 i (j + 1) = sg (\<Sum>l<n + 1. elt a1 i l * elt theta1 j l)))
           \<and> wf_arr a3 \<and> nrows a3 = m \<and> ncols a3 = k
           \<and> (\<forall>i<m. \<forall>j<k. elt a3 i j = sg (\<Sum>l<h + 1. elt a2 i l * elt theta2 j l))"
proof -
  have ff: "feed_forward sg theta1 theta2 X =
              Inr (a3_spec sg theta1 theta2 X, a2_spec sg theta1 X, a1_spec X)"
    using assms by (simp add: feed_forward_spec)
  have a1: "wf_arr (a1_spec X) \<and> nrows (a1_spec X) = m \<and> ncols (a1_spec X) = n + 1
        \<and> (\<forall>i<m. elt (a1_spec X) i 0 = 1 \<and> (\<forall>j<n. elt (a1_spec X) i (j + 1) = elt X i j))"
    using assms by (simp add: a1_spec_def)
  have a2: "wf_arr (a2_spec sg theta1 X) \<and> nrows (a2_spec sg theta1 X) = m
        \<and> ncols (a2_spec sg theta1 X) = h + 1
        \<and> (\<forall>i<m. elt (a2_spec sg theta1 X) i 0 = 1
              \<and> (\<forall>j<h. elt (a2_spec sg theta1 X) i (j + 1)
                         = sg (\<Sum>l<n + 1. elt (a1_spec X) i l * elt theta1 j l)))"
    using assms by (simp add: a2_spec_def)
  have a3: "wf_arr (a3_spec sg theta1 theta2 X) \<and> nrows (a3_spec sg theta1 theta2 X) = m
        \<and> ncols (a3_spec sg theta1 theta2 X) = k
        \<and> (\<forall>i<m. \<forall>j<k. elt (a3_spec sg theta1 theta2 X) i j
                         = sg (\<Sum>l<h + 1. elt (a2_spec sg theta1 X) i l * elt theta2 j l))"
    using assms by (simp add: a3_spec_def)
  show ?thesis
    using ff a1 a2 a3 by blast
qed

lemma elt_eval: "elt \<lparr>nrows = r, ncols = c, buf = xs\<rparr> i j = xs ! (i * c + j)"
  by (simp add: elt_def)

lemma ex_a3:
  "elt (a3_spec sg \<lparr>nrows = 2, ncols = 3, buf = [0, 0, 0, 0, 0, 0]\<rparr>
                   \<lparr>nrows = 1, ncols = 3, buf = [b, 0, 0]\<rparr>
                   \<lparr>nrows = 1, ncols = 2, buf = [1, 1]\<rparr>) 0 0 = sg b"
  by (simp add: a3_spec_def a2_spec_def a1_spec_def elt_eval lessThan_Suc eval_nat_numeral)

theorem feed_forward_activations_witness:
  "\<exists>a3 a2 a1. feed_forward sigmoid \<lparr>nrows = 2, ncols = 3, buf = [0, 0, 0, 0, 0, 0]\<rparr>
                   \<lparr>nrows = 1, ncols = 3, buf = [0, 0, 0]\<rparr>
                   \<lparr>nrows = 1, ncols = 2, buf = [1, 1]\<rparr> = Inr (a3, a2, a1)
       \<and> nrows a1 = 1 \<and> ncols a1 = 3 \<and> elt a1 0 0 = 1 \<and> elt a1 0 1 = 1 \<and> elt a1 0 2 = 1
       \<and> nrows a2 = 1 \<and> ncols a2 = 3 \<and> elt a2 0 0 = 1 \<and> elt a2 0 1 = 1 / 2
       \<and> nrows a3 = 1 \<and> ncols a3 = 1 \<and> elt a3 0 0 = 1 / 2"
  using feed_forward_activations [of "\<lparr>nrows = 2, ncols = 3, buf = [0, 0, 0, 0, 0, 0]\<rparr>" 2 2
          "\<lparr>nrows = 1, ncols = 3, buf = [0, 0, 0]\<rparr>" 1
          "\<lparr>nrows = 1, ncols = 2, buf = [1, 1]\<rparr>" 1 sigmoid]
  apply (simp add: elt_eval lessThan_Suc eval_nat_numeral sigmoid_exp)
  apply (elim exE conjE)
  apply (simp add: elt_eval lessThan_Suc eval_nat_numeral sigmoid_exp)
  done

lemma ex_ff:
  "feed_forward sg \<lparr>nrows = 2, ncols = 3, buf = [0, 0, 0, 0, 0, 0]\<rparr>
                   \<lparr>nrows = 1, ncols = 3, buf = [b, 0, 0]\<rparr>
                   \<lparr>nrows = 1, ncols = 2, buf = [1, 1]\<rparr>
     = Inr (a3_spec sg \<lparr>nrows = 2, ncols = 3, buf = [0, 0, 0, 0, 0, 0]\<rparr>
                   \<lparr>nrows = 1, ncols = 3, buf = [b, 0, 0]\<rparr>
                   \<lparr>nrows = 1, ncols = 2, buf = [1, 1]\<rparr>,
            a2_spec sg \<lparr>nrows = 2, ncols = 3, buf = [0, 0, 0, 0, 0, 0]\<rparr>
                   \<lparr>nrows = 1, ncols = 2, buf = [1, 1]\<rparr>,
            a1_spec \<lparr>nrows = 1, ncols = 2, buf = [1, 1]\<rparr>)"
  by (rule feed_forward_spec) simp_all

lemma bdim_same [simp]: "bdim a a = Inr a" by (simp add: bdim_def)

lemma ew2_same:
  "nrows A = nrows B \<Longrightarrow> ncols A = ncols B \<Longrightarrow>
   ew2 f A B = Inr (mk (nrows A) (ncols A) (\<lambda>i j. f (elt A i j) (elt B i j)))"
  by (auto simp: ew2_def belt_def intro!: mk_cong)

lemma upt_add_split: "[0..<a + c] = [0..<a] @ map (\<lambda>j. a + j) [0..<c]"
proof -
  have "[0..<a + c] = [0..<a] @ [a..<a + c]"
    by (rule upt_add_eq_append) simp
  moreover have "map (\<lambda>j. a + j) [0..<c] = [a..<a + c]"
    by (induction c) simp_all
  ultimately show ?thesis by simp
qed

lemma buf_mk_Suc:
  "buf (mk (Suc r) c f) = buf (mk r c f) @ map (f r) [0..<c]"
proof -
  have "[0..<Suc r * c] = [0..<r * c + c]"
    by (simp only: mult_Suc add.commute)
  also have "\<dots> = [0..<r * c] @ map (\<lambda>j. r * c + j) [0..<c]"
    by (rule upt_add_split)
  finally have sp: "[0..<Suc r * c] = [0..<r * c] @ map (\<lambda>j. r * c + j) [0..<c]" .
  have "map (\<lambda>k. f (k div c) (k mod c)) (map (\<lambda>j. r * c + j) [0..<c]) = map (f r) [0..<c]"
    by (simp add: comp_def)
  then show ?thesis
    unfolding mk_def by (simp add: sp del: mult_Suc)
qed

lemma sum_list_map_upt: "sum_list (map g [0..<c]) = (\<Sum>j<c. g j)" for g :: "nat \<Rightarrow> real"
  by (induction c) simp_all

lemma np_sum_mk: "np_sum (mk r c f) = (\<Sum>i<r. \<Sum>j<c. f i j)"
proof (induction r)
  case 0
  show ?case by (simp add: np_sum_def mk_def)
next
  case (Suc r)
  then show ?case
    by (simp add: np_sum_def buf_mk_Suc sum_list_map_upt)
qed

lemma set_buf_mk: "set (buf (mk r c f)) = {f i j | i j. i < r \<and> j < c}"
proof (induction r)
  case 0
  show ?case by (simp add: mk_def)
next
  case (Suc r)
  have new: "set (map (f r) [0..<c]) = {f r j | j. j < c}"
    by auto
  have split: "{f i j | i j. i < Suc r \<and> j < c}
                 = {f i j | i j. i < r \<and> j < c} \<union> {f r j | j. j < c}"
    by (fastforce simp: less_Suc_eq)
  show ?case
    by (simp only: buf_mk_Suc set_append Suc new split)
qed

lemma fl_add_simps [simp]:
  "fl_add (Some a) (Some b) = Some (a + b)"
  "fl_add None y = None"
  "fl_add x None = None"
  by (simp_all add: fl_add_def split: option.splits)

lemma foldl_fl_add_None: "foldl fl_add None xs = None"
  by (induction xs) simp_all

lemma foldl_fl_add_Some:
  "foldl fl_add (Some a) (map Some xs) = Some (a + sum_list xs)"
  by (induction xs arbitrary: a) (simp_all add: add.assoc)

lemma foldl_fl_add_eq_None:
  "foldl fl_add (Some a) xs = None \<longleftrightarrow> None \<in> set xs"
proof (induction xs arbitrary: a)
  case Nil
  show ?case by simp
next
  case (Cons x xs)
  show ?case
  proof (cases x)
    case None
    then show ?thesis by (simp add: foldl_fl_add_None)
  next
    case (Some b)
    have "foldl fl_add (Some a) (x # xs) = foldl fl_add (Some (a + b)) xs"
      using Some by simp
    also have "\<dots> = None \<longleftrightarrow> None \<in> set xs"
      by (rule Cons)
    also have "\<dots> \<longleftrightarrow> None \<in> set (x # xs)"
      using Some by simp
    finally show ?thesis .
  qed
qed

lemma buf_mk_map: "buf (mk r c (\<lambda>i j. g (f i j))) = map g (buf (mk r c f))"
  by (simp add: mk_def comp_def)

lemma np_sum_fl_Some: "np_sum_fl (mk r c (\<lambda>i j. Some (f i j))) = Some (\<Sum>i<r. \<Sum>j<c. f i j)"
  using np_sum_mk [of r c f]
  by (simp add: np_sum_fl_def buf_mk_map [of r c Some f] foldl_fl_add_Some np_sum_def del: fl_add_simps)

lemma np_sum_fl_eq_None:
  "np_sum_fl (mk r c f) = None \<longleftrightarrow> (\<exists>i<r. \<exists>j<c. f i j = None)"
proof -
  have "None \<in> {f i j | i j. i < r \<and> j < c} \<longleftrightarrow> (\<exists>i<r. \<exists>j<c. f i j = None)"
    by (auto intro: sym)
  then show ?thesis
    by (simp add: np_sum_fl_def foldl_fl_add_eq_None set_buf_mk)
qed

section \<open>The cost\<close>

lemma np_sum_squares: "np_sum (ew1 (\<lambda>v. v ^ 2) (cols_from1 theta)) = reg_sum theta"
  by (simp add: ew1_def cols_from1_def np_sum_mk reg_sum_def)

lemma feed_forward_shape:
  assumes "feed_forward sg theta1 theta2 X = Inr (h0, a2, a1)"
  shows "nrows h0 = nrows X \<and> ncols h0 = nrows theta2 \<and> wf_arr h0"
  using assms
  by (auto simp: feed_forward_def Let_def ebind_eq_Inr ut_sigmoid_def matmul_def
      column_stack_def split: if_splits)

lemma cost_unfold:
  assumes ff: "feed_forward sg theta1 theta2 X = Inr (h0, a2, a1)"
    and y: "nrows y = nrows X" "ncols y = nrows theta2"
  shows "cost sg theta1 theta2 X y lambda =
           Inr (fl_add (fl_div (fl_neg (np_sum_fl (log_terms y h0))) (nrows X))
                       (fl_div (Some (lambda * (reg_sum theta1 + reg_sum theta2))) (2 * nrows X)))"
proof -
  have sh: "nrows h0 = nrows X" "ncols h0 = nrows theta2"
    using feed_forward_shape [OF ff] by simp_all
  let ?p = "mk (nrows X) (nrows theta2) (\<lambda>i j. fl_mul (elt y i j) (np_log (elt h0 i j)))"
  let ?q = "mk (nrows X) (nrows theta2) (\<lambda>i j. fl_mul (1 - elt y i j) (np_log (1 - elt h0 i j)))"
  have p: "ew2 fl_mul y (ew1 np_log h0) = Inr ?p"
    using sh y by (auto simp: ew2_same intro!: mk_cong)
  have q: "ew2 fl_mul (ew1 (\<lambda>v. 1 - v) y) (ew1 np_log (ew1 (\<lambda>v. 1 - v) h0)) = Inr ?q"
    using sh y by (auto simp: ew2_same intro!: mk_cong)
  have t: "ew2 fl_add ?p ?q = Inr (log_terms y h0)"
    using sh by (auto simp: ew2_same log_terms_def intro!: mk_cong)
  show ?thesis
    by (simp add: cost_def Let_def ff p q t np_sum_squares)
qed

lemma log_terms_finite:
  assumes "\<forall>i<nrows h0. \<forall>j<ncols h0. 0 < elt h0 i j \<and> elt h0 i j < 1"
  shows "log_terms y h0 =
           mk (nrows h0) (ncols h0)
              (\<lambda>i j. Some (elt y i j * ln (elt h0 i j) + (1 - elt y i j) * ln (1 - elt h0 i j)))"
  unfolding log_terms_def
  using assms by (auto simp: np_log_def fl_mul_def intro!: mk_cong)

lemma log_terms_None_iff:
  "np_sum_fl (log_terms y h0) = None \<longleftrightarrow>
     (\<exists>i<nrows h0. \<exists>j<ncols h0. \<not> (0 < elt h0 i j \<and> elt h0 i j < 1))"
  unfolding log_terms_def np_sum_fl_eq_None
  by (auto simp: np_log_def fl_mul_def fl_add_def split: option.splits if_splits)

text \<open>
  Claim C2. For inputs of valid shapes with \<open>m \<ge> 1\<close> examples whose final-layer output
  \<open>h0\<close> has every entry strictly between 0 and 1, \<open>cost\<close> returns exactly
  \<open>-(1/m) \<Sum>i,j [ y_ij ln h0_ij + (1 - y_ij) ln (1 - h0_ij) ]\<close> plus \<open>lambda / (2m)\<close>
  times the sums of squares of \<open>theta1[:,1:]\<close> and \<open>theta2[:,1:]\<close>: column 0 of either
  matrix does not enter the regularisation term.
\<close>

theorem cost_formula:
  assumes "nrows theta1 = h" "ncols theta1 = n + 1" "nrows theta2 = k" "ncols theta2 = h + 1"
    and "nrows X = m" "ncols X = n" "nrows y = m" "ncols y = k" "1 \<le> m"
    and "feed_forward sg theta1 theta2 X = Inr (h0, a2, a1)"
    and "\<forall>i<m. \<forall>j<k. 0 < elt h0 i j \<and> elt h0 i j < 1"
  shows "cost sg theta1 theta2 X y lambda =
           Inr (Some (- (1 / real m)
                        * (\<Sum>i<m. \<Sum>j<k. elt y i j * ln (elt h0 i j)
                                          + (1 - elt y i j) * ln (1 - elt h0 i j))
                      + (lambda / (2 * real m))
                        * ((\<Sum>j<h. \<Sum>l<n. (elt theta1 j (l + 1)) ^ 2)
                           + (\<Sum>j<k. \<Sum>l<h. (elt theta2 j (l + 1)) ^ 2))))"
proof -
  have sh: "nrows h0 = m" "ncols h0 = k"
    using feed_forward_shape [OF assms(10)] assms by simp_all
  have lt: "np_sum_fl (log_terms y h0) =
              Some (\<Sum>i<m. \<Sum>j<k. elt y i j * ln (elt h0 i j)
                                   + (1 - elt y i j) * ln (1 - elt h0 i j))"
    using assms(11) sh by (simp add: log_terms_finite np_sum_fl_Some)
  have reg: "reg_sum theta1 = (\<Sum>j<h. \<Sum>l<n. (elt theta1 j (l + 1)) ^ 2)"
            "reg_sum theta2 = (\<Sum>j<k. \<Sum>l<h. (elt theta2 j (l + 1)) ^ 2)"
    using assms by (simp_all add: reg_sum_def)
  have "cost sg theta1 theta2 X y lambda =
          Inr (fl_add (fl_div (fl_neg (np_sum_fl (log_terms y h0))) m)
                      (fl_div (Some (lambda * (reg_sum theta1 + reg_sum theta2))) (2 * m)))"
    using cost_unfold [OF assms(10), of y lambda] assms by simp
  then show ?thesis
    using assms(9) by (simp add: lt reg fl_div_def fl_neg_def)
qed

text \<open>
  Claim C3, amended. \<open>cost\<close> does not clamp the predictions: it takes the logarithms
  of \<open>h0\<close> and \<open>1 - h0\<close> as they are. For inputs of valid shapes, whenever some entry of
  the final-layer output \<open>h0\<close> is exactly 0 or exactly 1, the returned cost is not a
  finite number.
\<close>

theorem cost_saturated_not_finite:
  assumes "nrows theta1 = h" "ncols theta1 = n + 1" "nrows theta2 = k" "ncols theta2 = h + 1"
    and "nrows X = m" "ncols X = n" "nrows y = m" "ncols y = k"
    and "feed_forward sg theta1 theta2 X = Inr (h0, a2, a1)"
    and "i < m" "j < k"
    and "elt h0 i j = 0 \<or> elt h0 i j = 1"
  shows "cost sg theta1 theta2 X y lambda = Inr None"
proof -
  have sh: "nrows h0 = m" "ncols h0 = k"
    using feed_forward_shape [OF assms(9)] assms by simp_all
  have "\<not> (0 < elt h0 i j \<and> elt h0 i j < 1)"
    using assms(12) by auto
  then have "\<exists>i<nrows h0. \<exists>j<ncols h0. \<not> (0 < elt h0 i j \<and> elt h0 i j < 1)"
    using assms(10,11) sh by blast
  then have s: "np_sum_fl (log_terms y h0) = None"
    by (simp only: log_terms_None_iff)
  have "cost sg theta1 theta2 X y lambda =
          Inr (fl_add (fl_div (fl_neg (np_sum_fl (log_terms y h0))) m)
                      (fl_div (Some (lambda * (reg_sum theta1 + reg_sum theta2))) (2 * m)))"
    using cost_unfold [OF assms(9), of y lambda] assms by simp
  then show ?thesis
    by (simp add: s fl_neg_def fl_div_def)
qed

theorem cost_formula_witness:
  "cost sigmoid \<lparr>nrows = 2, ncols = 3, buf = [0, 0, 0, 0, 0, 0]\<rparr>
                \<lparr>nrows = 1, ncols = 3, buf = [0, 0, 0]\<rparr>
                \<lparr>nrows = 1, ncols = 2, buf = [1, 1]\<rparr>
                \<lparr>nrows = 1, ncols = 1, buf = [1]\<rparr> 0 = Inr (Some (ln 2))"
proof -
  have h: "elt (a3_spec sigmoid \<lparr>nrows = 2, ncols = 3, buf = [0, 0, 0, 0, 0, 0]\<rparr>
                   \<lparr>nrows = 1, ncols = 3, buf = [0, 0, 0]\<rparr>
                   \<lparr>nrows = 1, ncols = 2, buf = [1, 1]\<rparr>) 0 0 = 1 / 2"
    using ex_a3 [of sigmoid 0] by (simp add: sigmoid_exp)
  have l: "ln (1 / 2 :: real) = - ln 2"
    by (simp add: ln_div)
  have c: "cost sigmoid \<lparr>nrows = 2, ncols = 3, buf = [0, 0, 0, 0, 0, 0]\<rparr>
                \<lparr>nrows = 1, ncols = 3, buf = [0, 0, 0]\<rparr>
                \<lparr>nrows = 1, ncols = 2, buf = [1, 1]\<rparr>
                \<lparr>nrows = 1, ncols = 1, buf = [1]\<rparr> 0
        = Inr (Some (- ln (elt (a3_spec sigmoid \<lparr>nrows = 2, ncols = 3, buf = [0, 0, 0, 0, 0, 0]\<rparr>
                   \<lparr>nrows = 1, ncols = 3, buf = [0, 0, 0]\<rparr>
                   \<lparr>nrows = 1, ncols = 2, buf = [1, 1]\<rparr>) 0 0)))"
    using cost_formula [OF _ _ _ _ _ _ _ _ _ ex_ff [of sigmoid 0],
        of 2 2 1 1 "\<lparr>nrows = 1, ncols = 1, buf = [1]\<rparr>" 0] h
    by (simp add: elt_eval)
  show ?thesis
    unfolding c h l by simp
qed

lemma two_le_exp: "(2::real) \<le> exp (37 / 53)"
proof -
  let ?x = "37 / 212 :: real"
  have q: "1 + ?x + ?x\<^sup>2 / 2 \<le> exp ?x"
    by (rule exp_lower_Taylor_quadratic) simp
  have "(2::real) \<le> (1 + ?x + ?x\<^sup>2 / 2) ^ 4"
    by (simp add: power2_eq_square power4_eq_xxxx)
  also have "\<dots> \<le> exp ?x ^ 4"
    using q by (intro power_mono) simp_all
  also have "\<dots> = exp (4 * ?x)"
    by (simp add: exp_of_nat_mult [symmetric])
  finally show ?thesis by simp
qed

lemma ln2_upper: "53 * ln (2::real) \<le> 37" "ln (2::real) \<le> 1"
proof -
  have "ln (2::real) \<le> 37 / 53"
    using ln_mono [OF two_le_exp] by simp
  then show "53 * ln (2::real) \<le> 37" by simp
  show "ln (2::real) \<le> 1"
    using ln_le_minus_one [of "2::real"] by simp
qed

lemma sigmoid_fp_saturated: "sigmoid_fp 37 = 1" "sigmoid_fp (- 1024) = 0"
proof -
  show "sigmoid_fp 37 = 1"
    using ln2_upper(1) by (simp add: sigmoid_fp_def)
  have "0 < ln (2::real)" by simp
  then have "\<not> 53 * ln (2::real) \<le> - 1024" by linarith
  moreover have "(1024::real) * ln 2 \<le> 1024"
    using ln2_upper(2) by simp
  ultimately show "sigmoid_fp (- 1024) = 0"
    by (simp add: sigmoid_fp_def)
qed

text \<open>
  Claim C3, as stated, fails: \<open>cost\<close> takes the logarithms of \<open>h0\<close> and \<open>1 - h0\<close> as
  they come, with no clamping. With a bias weight of 37 towards the output unit the
  double-precision sigmoid saturates to exactly 1, \<open>np.log(1 - h0)\<close> is \<open>-inf\<close>, and the
  returned cost is not a finite number.
\<close>

theorem cost_not_clamped_counterexample:
  "cost sigmoid_fp \<lparr>nrows = 2, ncols = 3, buf = [0, 0, 0, 0, 0, 0]\<rparr>
                   \<lparr>nrows = 1, ncols = 3, buf = [37, 0, 0]\<rparr>
                   \<lparr>nrows = 1, ncols = 2, buf = [1, 1]\<rparr>
                   \<lparr>nrows = 1, ncols = 1, buf = [0]\<rparr> 0 = Inr None"
proof -
  have h: "elt (a3_spec sigmoid_fp \<lparr>nrows = 2, ncols = 3, buf = [0, 0, 0, 0, 0, 0]\<rparr>
                   \<lparr>nrows = 1, ncols = 3, buf = [37, 0, 0]\<rparr>
                   \<lparr>nrows = 1, ncols = 2, buf = [1, 1]\<rparr>) 0 0 = 1"
    using ex_a3 [of sigmoid_fp 37] by (simp add: sigmoid_fp_saturated)
  have "np_sum_fl (log_terms \<lparr>nrows = 1, ncols = 1, buf = [0]\<rparr>
          (a3_spec sigmoid_fp \<lparr>nrows = 2, ncols = 3, buf = [0, 0, 0, 0, 0, 0]\<rparr>
                   \<lparr>nrows = 1, ncols = 3, buf = [37, 0, 0]\<rparr>
                   \<lparr>nrows = 1, ncols = 2, buf = [1, 1]\<rparr>)) = None"
    unfolding log_terms_None_iff using h by (simp add: a3_spec_def)
  then show ?thesis
    using cost_unfold [OF ex_ff [of sigmoid_fp 37], of "\<lparr>nrows = 1, ncols = 1, buf = [0]\<rparr>" 0]
    by (simp add: fl_neg_def fl_div_def)
qed

theorem cost_saturated_not_finite_witness:
  "cost sigmoid_fp \<lparr>nrows = 2, ncols = 3, buf = [0, 0, 0, 0, 0, 0]\<rparr>
                   \<lparr>nrows = 1, ncols = 3, buf = [- 1024, 0, 0]\<rparr>
                   \<lparr>nrows = 1, ncols = 2, buf = [1, 1]\<rparr>
                   \<lparr>nrows = 1, ncols = 1, buf = [1]\<rparr> 0 = Inr None"
proof -
  have h: "elt (a3_spec sigmoid_fp \<lparr>nrows = 2, ncols = 3, buf = [0, 0, 0, 0, 0, 0]\<rparr>
                   \<lparr>nrows = 1, ncols = 3, buf = [- 1024, 0, 0]\<rparr>
                   \<lparr>nrows = 1, ncols = 2, buf = [1, 1]\<rparr>) 0 0 = 0"
    using ex_a3 [of sigmoid_fp "- 1024"] by (simp add: sigmoid_fp_saturated)
  show ?thesis
    using cost_saturated_not_finite [OF _ _ _ _ _ _ _ _ ex_ff [of sigmoid_fp "- 1024"],
        of 2 2 1 1 "\<lparr>nrows = 1, ncols = 1, buf = [1]\<rparr>" 0 0 0] h
    by simp
qed

section \<open>Flattening and unflattening\<close>

lemma np_reshape_Inr:
  "length v = r * c \<Longrightarrow> np_reshape v (r, c) = Inr \<lparr>nrows = r, ncols = c, buf = v\<rparr>"
  by (simp add: np_reshape_def)

text \<open>
  Claim C6. The two halves of the adapter for the external optimiser are inverse to each
  other: a flat vector \<open>v\<close> of length \<open>r1*c1 + r2*c2\<close> unflattens into two matrices of
  shapes \<open>(r1, c1)\<close> and \<open>(r2, c2)\<close>, without an error, and flattening them (each
  ravelled, the first one first) gives \<open>v\<close> back.
\<close>

theorem flatten_unflatten:
  assumes "length v = r1 * c1 + r2 * c2"
  shows "\<exists>theta1 theta2. unflatten v (r1, c1) (r2, c2) = Inr (theta1, theta2)
           \<and> wf_arr theta1 \<and> nrows theta1 = r1 \<and> ncols theta1 = c1
           \<and> wf_arr theta2 \<and> nrows theta2 = r2 \<and> ncols theta2 = c2
           \<and> flatten theta1 theta2 = v"
proof -
  let ?t1 = "\<lparr>nrows = r1, ncols = c1, buf = take (r1 * c1) v\<rparr>"
  let ?t2 = "\<lparr>nrows = r2, ncols = c2, buf = drop (r1 * c1) v\<rparr>"
  have l1: "length (take (r1 * c1) v) = r1 * c1"
    using assms by simp
  have l2: "length (drop (r1 * c1) v) = r2 * c2"
    using assms by simp
  have u: "unflatten v (r1, c1) (r2, c2) = Inr (?t1, ?t2)"
    by (simp add: unflatten_def np_reshape_Inr [OF l1] np_reshape_Inr [OF l2])
  have f: "flatten ?t1 ?t2 = v"
    by (simp add: flatten_def np_ravel_def)
  have w: "wf_arr ?t1" "wf_arr ?t2"
    using l1 l2 by (simp_all add: wf_arr_def)
  show ?thesis
    using u f w by simp
qed

theorem flatten_unflatten_witness:
  "\<exists>theta1 theta2. unflatten [1, 2, 3, 4, 5] (1, 2) (3, 1) = Inr (theta1, theta2)
      \<and> nrows theta1 = 1 \<and> ncols theta1 = 2 \<and> nrows theta2 = 3 \<and> ncols theta2 = 1
      \<and> flatten theta1 theta2 = [1, 2, 3, 4, 5]"
  using flatten_unflatten [of "[1, 2, 3, 4, 5]" 1 2 3 1] by auto

lemma unflatten_flatten:
  assumes "wf_arr theta1" "wf_arr theta2"
  shows "unflatten (flatten theta1 theta2) (nrows theta1, ncols theta1) (nrows theta2, ncols theta2)
           = Inr (theta1, theta2)"
  using assms by (simp add: unflatten_def flatten_def np_ravel_def np_reshape_def wf_arr_def)

section \<open>Backpropagation\<close>

lemma ew1_mk [simp]: "ew1 f (mk r c g) = mk r c (\<lambda>i j. f (g i j))"
  by (auto simp: ew1_def intro!: mk_cong)

lemma ew2_mk [simp]: "ew2 f (mk r c g) (mk r c g') = Inr (mk r c (\<lambda>i j. f (g i j) (g' i j)))"
  by (auto simp: ew2_same intro!: mk_cong)

lemma cols_from1_mk [simp]: "cols_from1 (mk r c g) = mk r (c - 1) (\<lambda>i j. g i (j + 1))"
  by (auto simp: cols_from1_def intro!: mk_cong)

lemma transpose_mk [simp]: "transpose_arr (mk r c g) = mk c r (\<lambda>i j. g j i)"
  by (auto simp: transpose_arr_def intro!: mk_cong)

lemma matmul_mk_left:
  "nrows B = n \<Longrightarrow> matmul (mk r n g) B = Inr (mk r (ncols B) (\<lambda>i j. \<Sum>l<n. g i l * elt B l j))"
  by (auto simp: matmul_def intro!: mk_cong)

lemma matmul_mk_mk [simp]:
  "matmul (mk r n g) (mk n c g') = Inr (mk r c (\<lambda>i j. \<Sum>l<n. g i l * g' l j))"
  by (auto simp: matmul_def intro!: mk_cong)

lemma row_Inr: "i < nrows A \<Longrightarrow> row A i = Inr (mk 1 (ncols A) (\<lambda>_. elt A i))"
  by (simp add: row_def)

lemma bcast_to_same:
  "nrows D = r \<Longrightarrow> ncols D = c \<Longrightarrow> bcast_to r c D = Inr (mk r c (elt D))"
  by (auto simp: bcast_to_def belt_def intro!: mk_cong)

lemma iop_same:
  assumes "nrows D = nrows (s ! r)" "ncols D = ncols (s ! r)"
  shows "iop f s r D =
           Inr (s[r := mk (nrows D) (ncols D) (\<lambda>i j. f (elt (s ! r) i j) (elt D i j))])"
proof -
  have "bcast_to (nrows (s ! r)) (ncols (s ! r)) D = Inr (mk (nrows D) (ncols D) (elt D))"
    using assms by (simp add: bcast_to_same)
  then show ?thesis
    using assms by (auto simp: iop_def Let_def intro!: mk_cong arg_cong [where f = "list_update s r"])
qed

lemma store_nth_old: "r < length s \<Longrightarrow> (s @ xs) ! r = s ! r"
  by (simp add: nth_append)

lemma store_nth_new [simp]:
  "(s @ [A, B]) ! length s = A" "(s @ [A, B]) ! Suc (length s) = B"
  by (simp_all add: nth_append)

lemma store_upd_new [simp]:
  "(s @ [A, B])[length s := C] = s @ [C, B]"
  "(s @ [A, B])[Suc (length s) := C] = s @ [A, C]"
  by (simp_all add: list_update_append)

lemma for_loop_append:
  "for_loop (xs @ ys) body s = ebind (for_loop xs body s) (for_loop ys body)"
  by (induction xs arbitrary: s) (simp_all add: ebind_def split: sum.splits)

lemma for_loop_upt_Suc:
  "for_loop [0..<Suc n] body s = ebind (for_loop [0..<n] body s) (\<lambda>s'. body s' n)"
  by (simp add: for_loop_append ebind_def split: sum.splits)

lemma backprop_body_step:
  assumes refs: "theta2 < length s" "y < length s"
    and sh: "nrows (s ! theta2) = k" "ncols (s ! theta2) = h + 1"
      "nrows (s ! y) = m" "ncols (s ! y) = k"
      "nrows a3 = m" "ncols a3 = k" "nrows a2 = m" "ncols a2 = h + 1"
      "nrows a1 = m" "ncols a1 = n + 1"
    and i: "i < m"
  shows "backprop_body theta2 y a3 a2 a1 (length s) (Suc (length s))
           (s @ [mk h (n + 1) G1, mk k (h + 1) G2]) i
         = Inr (s @ [mk h (n + 1) (\<lambda>j l. G1 j l + d2_spec (s ! theta2) a3 a2 (s ! y) i j * elt a1 i l),
                     mk k (h + 1) (\<lambda>c l. G2 c l + d3_spec a3 (s ! y) i c * elt a2 i l)])"
proof -
  let ?s = "s @ [mk h (n + 1) G1, mk k (h + 1) G2]"
  let ?d3 = "mk 1 k (\<lambda>_ c. d3_spec a3 (s ! y) i c)"
  let ?a2i = "mk 1 (h + 1) (\<lambda>_. elt a2 i)"
  let ?gZ = "mk 1 (h + 1) (\<lambda>_ l. elt a2 i l * (1 - elt a2 i l))"
  let ?d2 = "mk 1 h (\<lambda>_ j. d2_spec (s ! theta2) a3 a2 (s ! y) i j)"
  have old: "?s ! theta2 = s ! theta2" "?s ! y = s ! y"
    using refs by (simp_all add: store_nth_old)
  have r3: "row a3 i = Inr (mk 1 k (\<lambda>_. elt a3 i))"
    using sh i by (simp add: row_Inr)
  have ry: "row (?s ! y) i = Inr (mk 1 k (\<lambda>_. elt (s ! y) i))"
    using sh i old by (simp add: row_Inr)
  have d3: "ew2 (\<lambda>a b. a - b) (mk 1 k (\<lambda>_. elt a3 i)) (mk 1 k (\<lambda>_. elt (s ! y) i)) = Inr ?d3"
    by (simp add: d3_spec_def)
  have r2: "row a2 i = Inr ?a2i"
    using sh i by (simp add: row_Inr)
  have gZ: "ew2 (\<lambda>a b. a * b) ?a2i (ew1 (\<lambda>v. 1 - v) ?a2i) = Inr ?gZ"
    by simp
  have mm: "matmul ?d3 (?s ! theta2)
              = Inr (mk 1 (h + 1) (\<lambda>_ l. \<Sum>c<k. d3_spec a3 (s ! y) i c * elt (s ! theta2) c l))"
    using sh old by (simp add: matmul_mk_left)
  have d2: "cols_from1 (mk 1 (h + 1)
              (\<lambda>_ l. (\<Sum>c<k. d3_spec a3 (s ! y) i c * elt (s ! theta2) c l)
                        * (elt a2 i l * (1 - elt a2 i l)))) = ?d2"
    using sh by (simp add: d2_spec_def)
  have r1: "row a1 i = Inr (mk 1 (n + 1) (\<lambda>_. elt a1 i))"
    using sh i by (simp add: row_Inr)
  have D1: "matmul (transpose_arr ?d2) (mk 1 (n + 1) (\<lambda>_. elt a1 i))
              = Inr (mk h (n + 1) (\<lambda>j l. d2_spec (s ! theta2) a3 a2 (s ! y) i j * elt a1 i l))"
    by simp
  have D2: "matmul (transpose_arr ?d3) ?a2i
              = Inr (mk k (h + 1) (\<lambda>c l. d3_spec a3 (s ! y) i c * elt a2 i l))"
    by simp
  have up1: "iop (\<lambda>a b. a + b) ?s (length s)
               (mk h (n + 1) (\<lambda>j l. d2_spec (s ! theta2) a3 a2 (s ! y) i j * elt a1 i l))
             = Inr (s @ [mk h (n + 1) (\<lambda>j l. G1 j l + d2_spec (s ! theta2) a3 a2 (s ! y) i j * elt a1 i l),
                         mk k (h + 1) G2])"
    by (subst iop_same) (auto intro!: mk_cong)
  have up2: "iop (\<lambda>a b. a + b)
               (s @ [mk h (n + 1) (\<lambda>j l. G1 j l + d2_spec (s ! theta2) a3 a2 (s ! y) i j * elt a1 i l),
                     mk k (h + 1) G2]) (Suc (length s))
               (mk k (h + 1) (\<lambda>c l. d3_spec a3 (s ! y) i c * elt a2 i l))
             = Inr (s @ [mk h (n + 1) (\<lambda>j l. G1 j l + d2_spec (s ! theta2) a3 a2 (s ! y) i j * elt a1 i l),
                         mk k (h + 1) (\<lambda>c l. G2 c l + d3_spec a3 (s ! y) i c * elt a2 i l)])"
    by (subst iop_same) (auto intro!: mk_cong)
  show ?thesis
    unfolding backprop_body_def r3 ry ebind_Inr d3 r2 gZ mm Let_def
    by (simp only: ew2_mk ebind_Inr d2 r1 D1 up1 r2 D2 up2)
qed

lemma backprop_loop:
  assumes refs: "theta2 < length s" "y < length s"
    and sh: "nrows (s ! theta2) = k" "ncols (s ! theta2) = h + 1"
      "nrows (s ! y) = m" "ncols (s ! y) = k"
      "nrows a3 = m" "ncols a3 = k" "nrows a2 = m" "ncols a2 = h + 1"
      "nrows a1 = m" "ncols a1 = n + 1"
    and p: "p \<le> m"
  shows "for_loop [0..<p] (backprop_body theta2 y a3 a2 a1 (length s) (Suc (length s)))
           (s @ [mk h (n + 1) (\<lambda>j l. 0), mk k (h + 1) (\<lambda>c l. 0)])
         = Inr (s @ [mk h (n + 1) (\<lambda>j l. \<Sum>i<p. d2_spec (s ! theta2) a3 a2 (s ! y) i j * elt a1 i l),
                     mk k (h + 1) (\<lambda>c l. \<Sum>i<p. d3_spec a3 (s ! y) i c * elt a2 i l)])"
  using p
proof (induction p)
  case 0
  show ?case by simp
next
  case (Suc p)
  then have lt: "p < m" and le: "p \<le> m" by simp_all
  show ?case
    unfolding for_loop_upt_Suc Suc.IH [OF le] ebind_Inr
      backprop_body_step [OF refs sh lt]
    by simp
qed

lemma idiv_col0_new:
  assumes "m \<noteq> 0"
  shows "idiv_col0 (s @ [mk r (Suc c) g, B]) (length s) m
           = Inr (s @ [mk r (Suc c) (\<lambda>i j. if j = 0 then g i j / real m else g i j), B])"
    and "idiv_col0 (s @ [A, mk r (Suc c) g]) (Suc (length s)) m
           = Inr (s @ [A, mk r (Suc c) (\<lambda>i j. if j = 0 then g i j / real m else g i j)])"
  using assms by (auto simp: idiv_col0_def Let_def intro!: mk_cong)

lemma set_cols_from1_new:
  "set_cols_from1 (s @ [mk r (Suc c) g, B]) (length s) (mk r c e)
     = Inr (s @ [mk r (Suc c) (\<lambda>i j. if j = 0 then g i j else e i (j - 1)), B])"
  "set_cols_from1 (s @ [A, mk r (Suc c) g]) (Suc (length s)) (mk r c e)
     = Inr (s @ [A, mk r (Suc c) (\<lambda>i j. if j = 0 then g i j else e i (j - 1))])"
  by (auto simp: set_cols_from1_def Let_def bcast_to_same intro!: mk_cong)

lemma div_count_mk: "m \<noteq> 0 \<Longrightarrow> div_count (mk r c g) m = Inr (mk r c (\<lambda>i j. g i j / real m))"
  by (simp add: div_count_def)

lemma backprop_run:
  assumes refs: "theta1 < length s" "theta2 < length s" "X < length s" "y < length s"
    and sh: "nrows (s ! theta1) = h" "ncols (s ! theta1) = n + 1"
      "nrows (s ! theta2) = k" "ncols (s ! theta2) = h + 1"
      "nrows (s ! X) = m" "ncols (s ! X) = n" "nrows (s ! y) = m" "ncols (s ! y) = k"
    and m: "1 \<le> m"
  shows "\<exists>J. cost sg (s ! theta1) (s ! theta2) (s ! X) (s ! y) lambda = Inr J
           \<and> backprop sg s theta1 theta2 X y lambda
               = Inr ((J, length s, Suc (length s)),
                      s @ [grad1_spec sg (s ! theta1) (s ! theta2) (s ! X) (s ! y) lambda,
                           grad2_spec sg (s ! theta1) (s ! theta2) (s ! X) (s ! y) lambda])"
proof -
  let ?t1 = "s ! theta1" and ?t2 = "s ! theta2" and ?X = "s ! X" and ?y = "s ! y"
  let ?m = "nrows ?X"
  let ?a3 = "a3_spec sg ?t1 ?t2 ?X" and ?a2 = "a2_spec sg ?t1 ?X" and ?a1 = "a1_spec ?X"
  let ?acc1 = "\<lambda>j l. \<Sum>i<m. d2_spec ?t2 ?a3 ?a2 ?y i j * elt ?a1 i l"
  let ?acc2 = "\<lambda>c l. \<Sum>i<m. d3_spec ?a3 ?y i c * elt ?a2 i l"
  let ?G1 = "grad1_spec sg ?t1 ?t2 ?X ?y lambda" and ?G2 = "grad2_spec sg ?t1 ?t2 ?X ?y lambda"
  let ?s1 = "s @ [mk h (Suc n) (\<lambda>j l. 0)]"
  let ?s2 = "s @ [mk h (Suc n) (\<lambda>j l. 0), mk k (Suc h) (\<lambda>c l. 0)]"
  let ?A1 = "mk h (Suc n) ?acc1" and ?A2 = "mk k (Suc h) ?acc2"
  let ?B1 = "mk h (Suc n) (\<lambda>i j. if j = 0 then ?acc1 i j / real m else ?acc1 i j)"
  let ?B2 = "mk k (Suc h) (\<lambda>i j. if j = 0 then ?acc2 i j / real m else ?acc2 i j)"
  let ?E1 = "mk h n (\<lambda>i j. ?acc1 i (j + 1) + lambda * elt ?t1 i (j + 1))"
  let ?E2 = "mk k h (\<lambda>i j. ?acc2 i (j + 1) + lambda * elt ?t2 i (j + 1))"
  let ?F1 = "mk h n (\<lambda>i j. (?acc1 i (j + 1) + lambda * elt ?t1 i (j + 1)) / real m)"
  let ?F2 = "mk k h (\<lambda>i j. (?acc2 i (j + 1) + lambda * elt ?t2 i (j + 1)) / real m)"
  have m0: "m \<noteq> 0" using m by simp
  have ff: "feed_forward sg ?t1 ?t2 ?X = Inr (?a3, ?a2, ?a1)"
    using sh by (simp add: feed_forward_spec)
  obtain J where J: "cost sg ?t1 ?t2 ?X ?y lambda = Inr J"
    using cost_unfold [OF ff, of ?y lambda] sh by simp
  have al: "alloc s (zeros (nrows ?t1) (ncols ?t1)) = (length s, ?s1)"
    using sh by (simp add: alloc_def zeros_def)
  have al2: "alloc ?s1 (zeros (nrows (?s1 ! theta2)) (ncols (?s1 ! theta2))) = (Suc (length s), ?s2)"
    using sh refs by (simp add: alloc_def zeros_def store_nth_old)
  have ff2: "feed_forward sg (?s2 ! theta1) (?s2 ! theta2) (?s2 ! X) = Inr (?a3, ?a2, ?a1)"
    using refs ff by (simp add: store_nth_old)
  have ash: "nrows ?a3 = m" "ncols ?a3 = k" "nrows ?a2 = m" "ncols ?a2 = h + 1"
    "nrows ?a1 = m" "ncols ?a1 = n + 1"
    using sh by (simp_all add: a3_spec_def a2_spec_def a1_spec_def)
  have loop: "for_loop [0..<?m] (backprop_body theta2 y ?a3 ?a2 ?a1 (length s) (Suc (length s))) ?s2
          = Inr (s @ [?A1, ?A2])"
    using backprop_loop [OF refs(2) refs(4) sh(3,4,7,8) ash order_refl] sh(5) by simp
  have d1: "idiv_col0 (s @ [?A1, ?A2]) (length s) ?m = Inr (s @ [?B1, ?A2])"
    using idiv_col0_new(1) [OF m0, of s h n ?acc1 ?A2] sh(5) by simp
  have d2: "idiv_col0 (s @ [?B1, ?A2]) (Suc (length s)) ?m = Inr (s @ [?B1, ?B2])"
    using idiv_col0_new(2) [OF m0, of s ?B1 k h ?acc2] sh(5) by simp
  have e1: "ew2 (\<lambda>a b. a + b) (cols_from1 ((s @ [?B1, ?B2]) ! length s))
              (ew1 (\<lambda>v. lambda * v) (cols_from1 ((s @ [?B1, ?B2]) ! theta1))) = Inr ?E1"
    using sh refs by (auto simp: store_nth_old cols_from1_def ew2_same intro!: mk_cong)
  have q1: "div_count ?E1 ?m = Inr ?F1"
    using m0 sh(5) by (simp add: div_count_mk)
  have G1: "mk h (Suc n) (\<lambda>i j. if j = 0 then (if j = 0 then ?acc1 i j / real m else ?acc1 i j)
                                   else (?acc1 i (j - 1 + 1) + lambda * elt ?t1 i (j - 1 + 1)) / real m)
            = ?G1"
    using sh by (auto simp: grad1_spec_def finalize_spec_def Let_def intro!: mk_cong)
  have w1: "set_cols_from1 (s @ [?B1, ?B2]) (length s) ?F1 = Inr (s @ [?G1, ?B2])"
    unfolding set_cols_from1_new(1) G1 ..
  have e2: "ew2 (\<lambda>a b. a + b) (cols_from1 ((s @ [?G1, ?B2]) ! Suc (length s)))
              (ew1 (\<lambda>v. lambda * v) (cols_from1 ((s @ [?G1, ?B2]) ! theta2))) = Inr ?E2"
    using sh refs by (auto simp: store_nth_old cols_from1_def ew2_same intro!: mk_cong)
  have q2: "div_count ?E2 ?m = Inr ?F2"
    using m0 sh(5) by (simp add: div_count_mk)
  have G2: "mk k (Suc h) (\<lambda>i j. if j = 0 then (if j = 0 then ?acc2 i j / real m else ?acc2 i j)
                                   else (?acc2 i (j - 1 + 1) + lambda * elt ?t2 i (j - 1 + 1)) / real m)
            = ?G2"
    using sh by (auto simp: grad2_spec_def finalize_spec_def Let_def intro!: mk_cong)
  have w2: "set_cols_from1 (s @ [?G1, ?B2]) (Suc (length s)) ?F2 = Inr (s @ [?G1, ?G2])"
    unfolding set_cols_from1_new(2) G2 ..
  have "backprop sg s theta1 theta2 X y lambda
               = Inr ((J, length s, Suc (length s)), s @ [?G1, ?G2])"
    unfolding backprop_def Let_def J ebind_Inr al prod.case al2 ff2 loop d1 d2 e1 q1 w1 e2 q2 w2 ..
  then show ?thesis using J by simp
qed

lemma finalize_entries:
  assumes "j < nrows theta"
  shows "0 < ncols theta \<Longrightarrow> elt (finalize_spec m lambda theta acc) j 0 = acc j 0 / real m"
    and "Suc l < ncols theta \<Longrightarrow>
           elt (finalize_spec m lambda theta acc) j (Suc l)
             = (acc j (Suc l) + lambda * elt theta j (Suc l)) / real m"
  using assms by (simp_all add: finalize_spec_def)

text \<open>
  Claim C1. For inputs of valid shapes with \<open>m \<ge> 1\<close>, \<open>backprop\<close> returns gradients
  with the specified entries. With \<open>d3 = a3[i] - y[i]\<close> and \<open>d2\<close> the product of
  \<open>d3 . theta2\<close> and \<open>a2[i] * (1 - a2[i])\<close> without its first column (the definitions
  \<open>d3_spec\<close> and \<open>d2_spec\<close>), \<open>grad1\<close> holds the sum over the examples of the
  outer products \<open>d2^T . a1[i]\<close> and \<open>grad2\<close> that of \<open>d3^T . a2[i]\<close>; column 0 is
  divided by \<open>m\<close>, every other column gets \<open>lambda * theta\<close> added and is then divided
  by \<open>m\<close>.
\<close>

theorem backprop_gradients:
  assumes "theta1 < length s" "theta2 < length s" "X < length s" "y < length s"
    and "nrows (s ! theta1) = h" "ncols (s ! theta1) = n + 1"
      "nrows (s ! theta2) = k" "ncols (s ! theta2) = h + 1"
      "nrows (s ! X) = m" "ncols (s ! X) = n" "nrows (s ! y) = m" "ncols (s ! y) = k"
    and "1 \<le> m"
  shows "\<exists>J grad1 grad2 s' a3 a2 a1.
           backprop sg s theta1 theta2 X y lambda = Inr ((J, grad1, grad2), s')
         \<and> feed_forward sg (s ! theta1) (s ! theta2) (s ! X) = Inr (a3, a2, a1)
         \<and> wf_arr (s' ! grad1) \<and> nrows (s' ! grad1) = h \<and> ncols (s' ! grad1) = n + 1
         \<and> wf_arr (s' ! grad2) \<and> nrows (s' ! grad2) = k \<and> ncols (s' ! grad2) = h + 1
         \<and> (\<forall>j<h. elt (s' ! grad1) j 0
                     = (\<Sum>i<m. d2_spec (s ! theta2) a3 a2 (s ! y) i j * elt a1 i 0) / real m
                 \<and> (\<forall>l<n. elt (s' ! grad1) j (l + 1)
                     = ((\<Sum>i<m. d2_spec (s ! theta2) a3 a2 (s ! y) i j * elt a1 i (l + 1))
                         + lambda * elt (s ! theta1) j (l + 1)) / real m))
         \<and> (\<forall>c<k. elt (s' ! grad2) c 0
                     = (\<Sum>i<m. d3_spec a3 (s ! y) i c * elt a2 i 0) / real m
                 \<and> (\<forall>l<h. elt (s' ! grad2) c (l + 1)
                     = ((\<Sum>i<m. d3_spec a3 (s ! y) i c * elt a2 i (l + 1))
                         + lambda * elt (s ! theta2) c (l + 1)) / real m))"
proof -
  let ?t1 = "s ! theta1" and ?t2 = "s ! theta2" and ?X = "s ! X" and ?y = "s ! y"
  let ?a3 = "a3_spec sg ?t1 ?t2 ?X" and ?a2 = "a2_spec sg ?t1 ?X" and ?a1 = "a1_spec ?X"
  let ?G1 = "grad1_spec sg ?t1 ?t2 ?X ?y lambda" and ?G2 = "grad2_spec sg ?t1 ?t2 ?X ?y lambda"
  let ?s' = "s @ [?G1, ?G2]"
  obtain J where run: "backprop sg s theta1 theta2 X y lambda
                         = Inr ((J, length s, Suc (length s)), ?s')"
    using backprop_run [OF assms] by blast
  have ff: "feed_forward sg ?t1 ?t2 ?X = Inr (?a3, ?a2, ?a1)"
    using assms by (simp add: feed_forward_spec)
  have G1: "?G1 = finalize_spec m lambda ?t1
                    (\<lambda>j l. \<Sum>i<m. d2_spec ?t2 ?a3 ?a2 ?y i j * elt ?a1 i l)"
    using assms by (simp add: grad1_spec_def Let_def)
  have G2: "?G2 = finalize_spec m lambda ?t2
                    (\<lambda>c l. \<Sum>i<m. d3_spec ?a3 ?y i c * elt ?a2 i l)"
    using assms by (simp add: grad2_spec_def Let_def)
  have shp: "wf_arr ?G1 \<and> nrows ?G1 = h \<and> ncols ?G1 = n + 1
           \<and> wf_arr ?G2 \<and> nrows ?G2 = k \<and> ncols ?G2 = h + 1"
    using assms by (simp add: G1 G2 finalize_spec_def)
  have e1: "\<forall>j<h. elt ?G1 j 0
                     = (\<Sum>i<m. d2_spec ?t2 ?a3 ?a2 ?y i j * elt ?a1 i 0) / real m
                 \<and> (\<forall>l<n. elt ?G1 j (l + 1)
                     = ((\<Sum>i<m. d2_spec ?t2 ?a3 ?a2 ?y i j * elt ?a1 i (l + 1))
                         + lambda * elt ?t1 j (l + 1)) / real m)"
    unfolding G1 using assms by (simp add: finalize_entries)
  have e2: "\<forall>c<k. elt ?G2 c 0
                     = (\<Sum>i<m. d3_spec ?a3 ?y i c * elt ?a2 i 0) / real m
                 \<and> (\<forall>l<h. elt ?G2 c (l + 1)
                     = ((\<Sum>i<m. d3_spec ?a3 ?y i c * elt ?a2 i (l + 1))
                         + lambda * elt ?t2 c (l + 1)) / real m)"
    unfolding G2 using assms by (simp add: finalize_entries)
  have new: "?s' ! length s = ?G1" "?s' ! Suc (length s) = ?G2"
    by simp_all
  have "backprop sg s theta1 theta2 X y lambda = Inr ((J, length s, Suc (length s)), ?s')
         \<and> feed_forward sg (s ! theta1) (s ! theta2) (s ! X) = Inr (?a3, ?a2, ?a1)
         \<and> wf_arr (?s' ! length s) \<and> nrows (?s' ! length s) = h \<and> ncols (?s' ! length s) = n + 1
         \<and> wf_arr (?s' ! Suc (length s)) \<and> nrows (?s' ! Suc (length s)) = k
         \<and> ncols (?s' ! Suc (length s)) = h + 1
         \<and> (\<forall>j<h. elt (?s' ! length s) j 0
                     = (\<Sum>i<m. d2_spec (s ! theta2) ?a3 ?a2 (s ! y) i j * elt ?a1 i 0) / real m
                 \<and> (\<forall>l<n. elt (?s' ! length s) j (l + 1)
                     = ((\<Sum>i<m. d2_spec (s ! theta2) ?a3 ?a2 (s ! y) i j * elt ?a1 i (l + 1))
                         + lambda * elt (s ! theta1) j (l + 1)) / real m))
         \<and> (\<forall>c<k. elt (?s' ! Suc (length s)) c 0
                     = (\<Sum>i<m. d3_spec ?a3 (s ! y) i c * elt ?a2 i 0) / real m
                 \<and> (\<forall>l<h. elt (?s' ! Suc (length s)) c (l + 1)
                     = ((\<Sum>i<m. d3_spec ?a3 (s ! y) i c * elt ?a2 i (l + 1))
                         + lambda * elt (s ! theta2) c (l + 1)) / real m))"
    unfolding new using run ff shp e1 e2 by (intro conjI) simp_all
  then show ?thesis
    by (intro exI)
qed

text \<open>
  Claim C9. \<open>backprop\<close> has no effect on its inputs: for inputs of valid shapes it
  returns, and in the store after the call \<open>theta1\<close>, \<open>theta2\<close>, \<open>X\<close> and \<open>y\<close>,
  as every array that existed before, are what they were. The two gradients are new
  arrays, the only ones written to.
\<close>

theorem backprop_frame:
  assumes "theta1 < length s" "theta2 < length s" "X < length s" "y < length s"
    and "nrows (s ! theta1) = h" "ncols (s ! theta1) = n + 1"
      "nrows (s ! theta2) = k" "ncols (s ! theta2) = h + 1"
      "nrows (s ! X) = m" "ncols (s ! X) = n" "nrows (s ! y) = m" "ncols (s ! y) = k"
    and "1 \<le> m"
  shows "\<exists>J grad1 grad2 s'.
           backprop sg s theta1 theta2 X y lambda = Inr ((J, grad1, grad2), s')
         \<and> s' ! theta1 = s ! theta1 \<and> s' ! theta2 = s ! theta2
         \<and> s' ! X = s ! X \<and> s' ! y = s ! y
         \<and> (\<forall>r<length s. s' ! r = s ! r)
         \<and> length s \<le> grad1 \<and> length s \<le> grad2 \<and> grad1 \<noteq> grad2
         \<and> length s' = length s + 2"
proof -
  let ?s' = "s @ [grad1_spec sg (s ! theta1) (s ! theta2) (s ! X) (s ! y) lambda,
                  grad2_spec sg (s ! theta1) (s ! theta2) (s ! X) (s ! y) lambda]"
  obtain J where run: "backprop sg s theta1 theta2 X y lambda
                         = Inr ((J, length s, Suc (length s)), ?s')"
    using backprop_run [OF assms] by blast
  have "\<forall>r<length s. ?s' ! r = s ! r"
    by (simp add: store_nth_old)
  then show ?thesis
    using run assms(1-4) by simp
qed

theorem backprop_frame_witness:
  "\<exists>J grad1 grad2 s'.
      backprop sigmoid
            [\<lparr>nrows = 2, ncols = 3, buf = [0, 0, 0, 0, 0, 0]\<rparr>,
             \<lparr>nrows = 1, ncols = 3, buf = [0, 0, 0]\<rparr>,
             \<lparr>nrows = 1, ncols = 2, buf = [1, 1]\<rparr>,
             \<lparr>nrows = 1, ncols = 1, buf = [1]\<rparr>] 0 1 2 3 0 = Inr ((J, grad1, grad2), s')
    \<and> s' ! 0 = \<lparr>nrows = 2, ncols = 3, buf = [0, 0, 0, 0, 0, 0]\<rparr>
    \<and> s' ! 1 = \<lparr>nrows = 1, ncols = 3, buf = [0, 0, 0]\<rparr>
    \<and> s' ! 2 = \<lparr>nrows = 1, ncols = 2, buf = [1, 1]\<rparr>
    \<and> s' ! 3 = \<lparr>nrows = 1, ncols = 1, buf = [1]\<rparr>
    \<and> 4 \<le> grad1 \<and> 4 \<le> grad2 \<and> length s' = 6"
  using backprop_frame [where s = "[\<lparr>nrows = 2, ncols = 3, buf = [0, 0, 0, 0, 0, 0]\<rparr>,
             \<lparr>nrows = 1, ncols = 3, buf = [0, 0, 0]\<rparr>,
             \<lparr>nrows = 1, ncols = 2, buf = [1, 1]\<rparr>,
             \<lparr>nrows = 1, ncols = 1, buf = [1]\<rparr>]"
      and ?theta1.0 = 0 and ?theta2.0 = 1 and X = 2 and y = 3 and h = 2 and n = 2 and k = 1 and m = 1
      and sg = sigmoid and lambda = 0]
  by (simp add: eval_nat_numeral) blast

theorem backprop_gradients_witness:
  "\<exists>J grad1 grad2 s'.
      backprop sigmoid
            [\<lparr>nrows = 2, ncols = 3, buf = [0, 0, 0, 0, 0, 0]\<rparr>,
             \<lparr>nrows = 1, ncols = 3, buf = [0, 0, 0]\<rparr>,
             \<lparr>nrows = 1, ncols = 2, buf = [1, 1]\<rparr>,
             \<lparr>nrows = 1, ncols = 1, buf = [1]\<rparr>] 0 1 2 3 0 = Inr ((J, grad1, grad2), s')
    \<and> nrows (s' ! grad1) = 2 \<and> ncols (s' ! grad1) = 3
    \<and> nrows (s' ! grad2) = 1 \<and> ncols (s' ! grad2) = 3
    \<and> elt (s' ! grad1) 0 0 = 0 \<and> elt (s' ! grad2) 0 0 = - 1 / 2"
proof -
  have h: "elt (a3_spec sigmoid \<lparr>nrows = 2, ncols = 3, buf = [0, 0, 0, 0, 0, 0]\<rparr>
                   \<lparr>nrows = 1, ncols = 3, buf = [0, 0, 0]\<rparr>
                   \<lparr>nrows = 1, ncols = 2, buf = [1, 1]\<rparr>) 0 0 = 1 / 2"
    using ex_a3 [of sigmoid 0] by (simp add: sigmoid_exp)
  show ?thesis
    using backprop_gradients [where s = "[\<lparr>nrows = 2, ncols = 3, buf = [0, 0, 0, 0, 0, 0]\<rparr>,
             \<lparr>nrows = 1, ncols = 3, buf = [0, 0, 0]\<rparr>,
             \<lparr>nrows = 1, ncols = 2, buf = [1, 1]\<rparr>,
             \<lparr>nrows = 1, ncols = 1, buf = [1]\<rparr>]"
      and ?theta1.0 = 0 and ?theta2.0 = 1 and X = 2 and y = 3 and h = 2 and n = 2 and k = 1 and m = 1
      and sg = sigmoid and lambda = 0] ex_ff [of sigmoid 0] h
    apply (simp add: eval_nat_numeral)
    apply (elim exE conjE)
    apply (simp add: d3_spec_def d2_spec_def elt_eval a2_spec_def a1_spec_def)
    done
qed

section \<open>The training loop\<close>

lemma grad_spec_shape:
  "nrows (grad1_spec sg theta1 theta2 X y lambda) = nrows theta1"
  "ncols (grad1_spec sg theta1 theta2 X y lambda) = ncols theta1"
  "nrows (grad2_spec sg theta1 theta2 X y lambda) = nrows theta2"
  "ncols (grad2_spec sg theta1 theta2 X y lambda) = ncols theta2"
  by (simp_all add: grad1_spec_def grad2_spec_def finalize_spec_def Let_def)

lemma axpy_shape [simp]:
  "nrows (axpy alpha theta grad) = nrows theta" "ncols (axpy alpha theta grad) = ncols theta"
  by (simp_all add: axpy_def)

lemma descent_step_shape:
  "nrows (fst (descent_step sg X y alpha lambda th)) = nrows (fst th)"
  "ncols (fst (descent_step sg X y alpha lambda th)) = ncols (fst th)"
  "nrows (snd (descent_step sg X y alpha lambda th)) = nrows (snd th)"
  "ncols (snd (descent_step sg X y alpha lambda th)) = ncols (snd th)"
  by (simp_all add: descent_step_def)

lemma descent_iter_shape:
  "nrows (fst ((descent_step sg X y alpha lambda ^^ p) th)) = nrows (fst th)
   \<and> ncols (fst ((descent_step sg X y alpha lambda ^^ p) th)) = ncols (fst th)
   \<and> nrows (snd ((descent_step sg X y alpha lambda ^^ p) th)) = nrows (snd th)
   \<and> ncols (snd ((descent_step sg X y alpha lambda ^^ p) th)) = ncols (snd th)"
  by (induction p) (simp_all add: descent_step_shape)

lemma isub_scaled:
  assumes "r < length s" "nrows G = nrows (s ! r)" "ncols G = ncols (s ! r)"
  shows "iop (\<lambda>a b. a - b) (s @ xs) r (ew1 (\<lambda>v. alpha * v) G)
           = Inr (s[r := axpy alpha (s ! r) G] @ xs)"
proof -
  have old: "(s @ xs) ! r = s ! r"
    using assms(1) by (simp add: store_nth_old)
  have "iop (\<lambda>a b. a - b) (s @ xs) r (ew1 (\<lambda>v. alpha * v) G)
          = Inr ((s @ xs)[r := mk (nrows G) (ncols G)
                   (\<lambda>i j. elt ((s @ xs) ! r) i j - elt (ew1 (\<lambda>v. alpha * v) G) i j)])"
    using iop_same [of "ew1 (\<lambda>v. alpha * v) G" "s @ xs" r "\<lambda>a b. a - b"] assms old by simp
  moreover have "mk (nrows G) (ncols G)
                   (\<lambda>i j. elt ((s @ xs) ! r) i j - elt (ew1 (\<lambda>v. alpha * v) G) i j)
                 = axpy alpha (s ! r) G"
    unfolding axpy_def old using assms by (auto intro!: mk_cong)
  ultimately show ?thesis
    using assms(1) by (simp add: list_update_append1)
qed

lemma gradient_body_run:
  assumes refs: "theta1 < length s" "theta2 < length s" "X < length s" "y < length s"
    and dist: "theta1 \<noteq> theta2"
    and sh: "nrows (s ! theta1) = h" "ncols (s ! theta1) = n + 1"
      "nrows (s ! theta2) = k" "ncols (s ! theta2) = h + 1"
      "nrows (s ! X) = m" "ncols (s ! X) = n" "nrows (s ! y) = m" "ncols (s ! y) = k"
    and m: "1 \<le> m"
  shows "\<exists>J. cost sg (s ! theta1) (s ! theta2) (s ! X) (s ! y) lambda = Inr J
           \<and> backprop sg s theta1 theta2 X y lambda
               = Inr ((J, length s, Suc (length s)),
                      s @ [grad1_spec sg (s ! theta1) (s ! theta2) (s ! X) (s ! y) lambda,
                           grad2_spec sg (s ! theta1) (s ! theta2) (s ! X) (s ! y) lambda])
           \<and> gradient_body sg theta1 theta2 X y alpha lambda (Jo, s) i
               = Inr (Some J,
                      s[theta1 := axpy alpha (s ! theta1)
                                    (grad1_spec sg (s ! theta1) (s ! theta2) (s ! X) (s ! y) lambda),
                        theta2 := axpy alpha (s ! theta2)
                                    (grad2_spec sg (s ! theta1) (s ! theta2) (s ! X) (s ! y) lambda)]
                      @ [grad1_spec sg (s ! theta1) (s ! theta2) (s ! X) (s ! y) lambda,
                         grad2_spec sg (s ! theta1) (s ! theta2) (s ! X) (s ! y) lambda])"
proof -
  let ?G1 = "grad1_spec sg (s ! theta1) (s ! theta2) (s ! X) (s ! y) lambda"
  let ?G2 = "grad2_spec sg (s ! theta1) (s ! theta2) (s ! X) (s ! y) lambda"
  let ?u = "s[theta1 := axpy alpha (s ! theta1) ?G1]"
  obtain J where J: "cost sg (s ! theta1) (s ! theta2) (s ! X) (s ! y) lambda = Inr J"
    and run: "backprop sg s theta1 theta2 X y lambda
                = Inr ((J, length s, Suc (length s)), s @ [?G1, ?G2])"
    using backprop_run [OF refs sh m] by blast
  have u1: "iop (\<lambda>a b. a - b) (s @ [?G1, ?G2]) theta1
              (ew1 (\<lambda>v. alpha * v) ((s @ [?G1, ?G2]) ! length s)) = Inr (?u @ [?G1, ?G2])"
    using isub_scaled [OF refs(1), where G = ?G1 and alpha = alpha and xs = "[?G1, ?G2]"]
    by (simp add: grad_spec_shape)
  have lu: "length ?u = length s" by simp
  have u2nd: "?u ! theta2 = s ! theta2"
    using dist by simp
  have new2: "(?u @ [?G1, ?G2]) ! Suc (length s) = ?G2"
    using store_nth_new(2) [of ?u ?G1 ?G2] by simp
  have u2: "iop (\<lambda>a b. a - b) (?u @ [?G1, ?G2]) theta2
              (ew1 (\<lambda>v. alpha * v) ((?u @ [?G1, ?G2]) ! Suc (length s)))
            = Inr (?u[theta2 := axpy alpha (s ! theta2) ?G2] @ [?G1, ?G2])"
    unfolding new2
    using isub_scaled [where r = theta2 and s = ?u and G = ?G2 and alpha = alpha and xs = "[?G1, ?G2]"]
      refs(2) u2nd
    by (simp add: grad_spec_shape)
  have "gradient_body sg theta1 theta2 X y alpha lambda (Jo, s) i
          = Inr (Some J, ?u[theta2 := axpy alpha (s ! theta2) ?G2] @ [?G1, ?G2])"
    unfolding gradient_body_def snd_conv run ebind_Inr prod.case u1 u2 ..
  then show ?thesis
    using J run by simp
qed

lemma gradient_loop:
  assumes refs: "theta1 < length s" "theta2 < length s" "X < length s" "y < length s"
    and dist: "theta1 \<noteq> theta2" "X \<noteq> theta1" "X \<noteq> theta2" "y \<noteq> theta1" "y \<noteq> theta2"
    and sh: "nrows (s ! theta1) = h" "ncols (s ! theta1) = n + 1"
      "nrows (s ! theta2) = k" "ncols (s ! theta2) = h + 1"
      "nrows (s ! X) = m" "ncols (s ! X) = n" "nrows (s ! y) = m" "ncols (s ! y) = k"
    and m: "1 \<le> m"
  shows "\<exists>Jp sp. for_loop [0..<p] (gradient_body sg theta1 theta2 X y alpha lambda) (None, s)
                    = Inr (Jp, sp)
           \<and> length sp = length s + 2 * p
           \<and> (sp ! theta1, sp ! theta2)
               = (descent_step sg (s ! X) (s ! y) alpha lambda ^^ p) (s ! theta1, s ! theta2)
           \<and> sp ! X = s ! X \<and> sp ! y = s ! y"
proof (induction p)
  case 0
  show ?case by simp
next
  case (Suc p)
  let ?ds = "descent_step sg (s ! X) (s ! y) alpha lambda"
  let ?th = "(?ds ^^ p) (s ! theta1, s ! theta2)"
  from Suc obtain Jp sp where
    loop: "for_loop [0..<p] (gradient_body sg theta1 theta2 X y alpha lambda) (None, s) = Inr (Jp, sp)"
    and len: "length sp = length s + 2 * p"
    and th: "(sp ! theta1, sp ! theta2) = ?th"
    and xy: "sp ! X = s ! X" "sp ! y = s ! y"
    by blast
  have t12: "sp ! theta1 = fst ?th" "sp ! theta2 = snd ?th"
    using th by (simp_all add: prod_eq_iff)
  have refs': "theta1 < length sp" "theta2 < length sp" "X < length sp" "y < length sp"
    using refs len by simp_all
  have sh': "nrows (sp ! theta1) = h" "ncols (sp ! theta1) = n + 1"
      "nrows (sp ! theta2) = k" "ncols (sp ! theta2) = h + 1"
      "nrows (sp ! X) = m" "ncols (sp ! X) = n" "nrows (sp ! y) = m" "ncols (sp ! y) = k"
    using sh descent_iter_shape [where sg = sg and X = "s ! X" and y = "s ! y" and alpha = alpha
        and lambda = lambda and p = p and th = "(s ! theta1, s ! theta2)"]
    by (simp_all add: t12 xy)
  let ?G1 = "grad1_spec sg (sp ! theta1) (sp ! theta2) (sp ! X) (sp ! y) lambda"
  let ?G2 = "grad2_spec sg (sp ! theta1) (sp ! theta2) (sp ! X) (sp ! y) lambda"
  let ?sq = "sp[theta1 := axpy alpha (sp ! theta1) ?G1, theta2 := axpy alpha (sp ! theta2) ?G2]
               @ [?G1, ?G2]"
  obtain J where
    body: "gradient_body sg theta1 theta2 X y alpha lambda (Jp, sp) p = Inr (Some J, ?sq)"
    using gradient_body_run [OF refs' dist(1) sh' m] by blast
  have run: "for_loop [0..<Suc p] (gradient_body sg theta1 theta2 X y alpha lambda) (None, s)
               = Inr (Some J, ?sq)"
    unfolding for_loop_upt_Suc loop ebind_Inr body ..
  have l: "length ?sq = length s + 2 * Suc p"
    using len by simp
  have n1: "?sq ! theta1 = axpy alpha (sp ! theta1) ?G1"
    using refs' dist by (simp add: nth_append)
  have n2: "?sq ! theta2 = axpy alpha (sp ! theta2) ?G2"
    using refs' dist by (simp add: nth_append)
  have nx: "?sq ! X = s ! X" "?sq ! y = s ! y"
    using refs' dist xy by (simp_all add: nth_append)
  have "(?sq ! theta1, ?sq ! theta2) = ?ds (sp ! theta1, sp ! theta2)"
    using n1 n2 by (simp add: descent_step_def xy)
  then have nth: "(?sq ! theta1, ?sq ! theta2) = (?ds ^^ Suc p) (s ! theta1, s ! theta2)"
    by (simp add: th)
  show ?case
    using run l nth nx by blast
qed

lemma gradient_run:
  assumes refs: "theta1 < length s" "theta2 < length s" "X < length s" "y < length s"
    and dist: "theta1 \<noteq> theta2" "X \<noteq> theta1" "X \<noteq> theta2" "y \<noteq> theta1" "y \<noteq> theta2"
    and sh: "nrows (s ! theta1) = h" "ncols (s ! theta1) = n + 1"
      "nrows (s ! theta2) = k" "ncols (s ! theta2) = h + 1"
      "nrows (s ! X) = m" "ncols (s ! X) = n" "nrows (s ! y) = m" "ncols (s ! y) = k"
    and m: "1 \<le> m"
    and it: "nat num_iters = Suc p"
  shows "\<exists>J s' Jp sp grad1 grad2 sb.
           gradient sg s theta1 theta2 X y num_iters alpha lambda = Inr ((J, theta1, theta2), s')
         \<and> length s' = length s + 2 * Suc p
         \<and> (s' ! theta1, s' ! theta2)
             = (descent_step sg (s ! X) (s ! y) alpha lambda ^^ Suc p) (s ! theta1, s ! theta2)
         \<and> s' ! X = s ! X \<and> s' ! y = s ! y
         \<and> for_loop [0..<p] (gradient_body sg theta1 theta2 X y alpha lambda) (None, s)
             = Inr (Jp, sp)
         \<and> (sp ! theta1, sp ! theta2)
             = (descent_step sg (s ! X) (s ! y) alpha lambda ^^ p) (s ! theta1, s ! theta2)
         \<and> backprop sg sp theta1 theta2 X y lambda = Inr ((J, grad1, grad2), sb)
         \<and> cost sg (sp ! theta1) (sp ! theta2) (s ! X) (s ! y) lambda = Inr J"
proof -
  let ?body = "gradient_body sg theta1 theta2 X y alpha lambda"
  let ?ds = "descent_step sg (s ! X) (s ! y) alpha lambda"
  obtain Jp sp where
    loop: "for_loop [0..<p] ?body (None, s) = Inr (Jp, sp)"
    and len: "length sp = length s + 2 * p"
    and th: "(sp ! theta1, sp ! theta2) = (?ds ^^ p) (s ! theta1, s ! theta2)"
    and xy: "sp ! X = s ! X" "sp ! y = s ! y"
    using gradient_loop [OF refs dist sh m, of p sg alpha lambda] by blast
  obtain Jq sq where
    loopq: "for_loop [0..<Suc p] ?body (None, s) = Inr (Jq, sq)"
    and lenq: "length sq = length s + 2 * Suc p"
    and thq: "(sq ! theta1, sq ! theta2) = (?ds ^^ Suc p) (s ! theta1, s ! theta2)"
    and xyq: "sq ! X = s ! X" "sq ! y = s ! y"
    using gradient_loop [OF refs dist sh m, of "Suc p" sg alpha lambda] by blast
  have t12: "sp ! theta1 = fst ((?ds ^^ p) (s ! theta1, s ! theta2))"
    "sp ! theta2 = snd ((?ds ^^ p) (s ! theta1, s ! theta2))"
    using th by (simp_all add: prod_eq_iff)
  have refs': "theta1 < length sp" "theta2 < length sp" "X < length sp" "y < length sp"
    using refs len by simp_all
  have sh': "nrows (sp ! theta1) = h" "ncols (sp ! theta1) = n + 1"
      "nrows (sp ! theta2) = k" "ncols (sp ! theta2) = h + 1"
      "nrows (sp ! X) = m" "ncols (sp ! X) = n" "nrows (sp ! y) = m" "ncols (sp ! y) = k"
    using sh descent_iter_shape [where sg = sg and X = "s ! X" and y = "s ! y" and alpha = alpha
        and lambda = lambda and p = p and th = "(s ! theta1, s ! theta2)"]
    by (simp_all add: t12 xy)
  obtain J sb sq' where
    cst: "cost sg (sp ! theta1) (sp ! theta2) (sp ! X) (sp ! y) lambda = Inr J"
    and bp: "backprop sg sp theta1 theta2 X y lambda = Inr ((J, length sp, Suc (length sp)), sb)"
    and body: "?body (Jp, sp) p = Inr (Some J, sq')"
    using gradient_body_run [OF refs' dist(1) sh' m, of sg lambda alpha Jp p] by blast
  have "for_loop [0..<Suc p] ?body (None, s) = Inr (Some J, sq')"
    unfolding for_loop_upt_Suc loop ebind_Inr body ..
  then have q: "Jq = Some J" "sq' = sq"
    using loopq by simp_all
  have g: "gradient sg s theta1 theta2 X y num_iters alpha lambda = Inr ((J, theta1, theta2), sq)"
    unfolding gradient_def it loopq q by simp
  show ?thesis
    using g lenq thq xyq loop th bp cst unfolding xy by blast
qed

text \<open>
  Claim C5. For \<open>num_iters \<ge> 1\<close>, on inputs of valid shapes held in distinct arrays,
  \<open>gradient\<close> makes exactly \<open>num_iters\<close> turns, each a call of \<open>backprop\<close> followed by
  \<open>theta1 \<leftarrow> theta1 - alpha * grad1\<close> and \<open>theta2 \<leftarrow> theta2 - alpha * grad2\<close>: the
  arrays behind \<open>theta1\<close> and \<open>theta2\<close> end as the \<open>num_iters\<close>-fold descent step of
  what they were, two gradient arrays were allocated per turn, \<open>X\<close> and \<open>y\<close> are
  untouched, and nothing but the count stops the loop. The \<open>J\<close> returned is the one of
  the last call of \<open>backprop\<close>, made on the store that \<open>num_iters - 1\<close> turns leave, and
  it comes with the references \<open>theta1\<close> and \<open>theta2\<close> themselves.
\<close>

theorem gradient_iterations:
  assumes refs: "theta1 < length s" "theta2 < length s" "X < length s" "y < length s"
    and dist: "theta1 \<noteq> theta2" "X \<noteq> theta2" "y \<noteq> theta1" "y \<noteq> theta2"
    and sh: "nrows (s ! theta1) = h" "ncols (s ! theta1) = n + 1"
      "nrows (s ! theta2) = k" "ncols (s ! theta2) = h + 1"
      "nrows (s ! X) = m" "ncols (s ! X) = n" "nrows (s ! y) = m" "ncols (s ! y) = k"
    and m: "1 \<le> m"
    and it: "1 \<le> num_iters"
  shows "\<exists>J s' Jp sp grad1 grad2 sb.
           gradient sg s theta1 theta2 X y num_iters alpha lambda = Inr ((J, theta1, theta2), s')
         \<and> (s' ! theta1, s' ! theta2)
             = (descent_step sg (s ! X) (s ! y) alpha lambda ^^ nat num_iters)
                 (s ! theta1, s ! theta2)
         \<and> s' ! X = s ! X \<and> s' ! y = s ! y
         \<and> length s' = length s + 2 * nat num_iters
         \<and> for_loop [0..<nat num_iters - 1] (gradient_body sg theta1 theta2 X y alpha lambda)
               (None, s) = Inr (Jp, sp)
         \<and> backprop sg sp theta1 theta2 X y lambda = Inr ((J, grad1, grad2), sb)"
proof -
  have X1: "X \<noteq> theta1"
    using sh(2,6) by auto
  obtain p where p: "nat num_iters = Suc p"
    using it by (cases "nat num_iters") simp_all
  show ?thesis
    using gradient_run [OF refs dist(1) X1 dist(2-4) sh m p, of sg alpha lambda]
    unfolding p by (simp del: funpow.simps) blast
qed

text \<open>
  Claim C10. For \<open>num_iters \<ge> 1\<close> the \<open>J\<close> returned by \<open>gradient\<close> is the cost of the
  parameters \<open>th\<close> obtained after \<open>num_iters - 1\<close> updates, the ones at the start of the
  last turn; the parameters returned are one descent step further.
\<close>

theorem gradient_cost_before_last_update:
  assumes refs: "theta1 < length s" "theta2 < length s" "X < length s" "y < length s"
    and dist: "theta1 \<noteq> theta2" "X \<noteq> theta2" "y \<noteq> theta1" "y \<noteq> theta2"
    and sh: "nrows (s ! theta1) = h" "ncols (s ! theta1) = n + 1"
      "nrows (s ! theta2) = k" "ncols (s ! theta2) = h + 1"
      "nrows (s ! X) = m" "ncols (s ! X) = n" "nrows (s ! y) = m" "ncols (s ! y) = k"
    and m: "1 \<le> m"
    and it: "1 \<le> num_iters"
  shows "\<exists>J s' th.
           gradient sg s theta1 theta2 X y num_iters alpha lambda = Inr ((J, theta1, theta2), s')
         \<and> th = (descent_step sg (s ! X) (s ! y) alpha lambda ^^ (nat num_iters - 1))
                  (s ! theta1, s ! theta2)
         \<and> cost sg (fst th) (snd th) (s ! X) (s ! y) lambda = Inr J
         \<and> (s' ! theta1, s' ! theta2) = descent_step sg (s ! X) (s ! y) alpha lambda th"
proof -
  have X1: "X \<noteq> theta1"
    using sh(2,6) by auto
  let ?ds = "descent_step sg (s ! X) (s ! y) alpha lambda"
  obtain p where p: "nat num_iters = Suc p"
    using it by (cases "nat num_iters") simp_all
  obtain J s' sp where
    g: "gradient sg s theta1 theta2 X y num_iters alpha lambda = Inr ((J, theta1, theta2), s')"
    and th': "(s' ! theta1, s' ! theta2) = (?ds ^^ Suc p) (s ! theta1, s ! theta2)"
    and th: "(sp ! theta1, sp ! theta2) = (?ds ^^ p) (s ! theta1, s ! theta2)"
    and c: "cost sg (sp ! theta1) (sp ! theta2) (s ! X) (s ! y) lambda = Inr J"
    using gradient_run [OF refs dist(1) X1 dist(2-4) sh m p, of sg alpha lambda] by blast
  have f: "fst ((?ds ^^ p) (s ! theta1, s ! theta2)) = sp ! theta1"
    "snd ((?ds ^^ p) (s ! theta1, s ! theta2)) = sp ! theta2"
    using th by (simp_all add: prod_eq_iff)
  have "cost sg (fst ((?ds ^^ p) (s ! theta1, s ! theta2)))
          (snd ((?ds ^^ p) (s ! theta1, s ! theta2))) (s ! X) (s ! y) lambda = Inr J"
    unfolding f by (rule c)
  moreover have "(s' ! theta1, s' ! theta2) = ?ds ((?ds ^^ p) (s ! theta1, s ! theta2))"
    using th' by simp
  ultimately show ?thesis
    using g unfolding p by simp
qed

text \<open>
  Claim C8, amended. No hyperparameter is validated. A negative \<open>lambda\<close> is not
  rejected: on inputs of valid shapes with \<open>m \<ge> 1\<close>, \<open>backprop\<close> returns cost and
  gradients whatever the sign of \<open>lambda\<close>, and so does the training loop for
  \<open>num_iters \<ge> 1\<close> when \<open>theta1\<close>, \<open>theta2\<close>, \<open>X\<close> and \<open>y\<close> are distinct arrays.
  With \<open>num_iters \<le> 0\<close> the loop makes no turn: no backpropagation and no update of a
  parameter take place.
\<close>

theorem gradient_no_validation:
  "(theta1 < length s \<and> theta2 < length s \<and> X < length s \<and> y < length s
      \<and> nrows (s ! theta1) = h \<and> ncols (s ! theta1) = n + 1
      \<and> nrows (s ! theta2) = k \<and> ncols (s ! theta2) = h + 1
      \<and> nrows (s ! X) = m \<and> ncols (s ! X) = n \<and> nrows (s ! y) = m \<and> ncols (s ! y) = k
      \<and> 1 \<le> m
    \<longrightarrow> (\<exists>res. backprop sg s theta1 theta2 X y lambda = Inr res)
      \<and> (theta1 \<noteq> theta2 \<and> X \<noteq> theta2 \<and> y \<noteq> theta1 \<and> y \<noteq> theta2 \<and> 1 \<le> num_iters
           \<longrightarrow> (\<exists>res. gradient sg s theta1 theta2 X y num_iters alpha lambda = Inr res)))
   \<and> (num_iters \<le> 0 \<longrightarrow>
        for_loop [0..<nat num_iters] (gradient_body sg theta1 theta2 X y alpha lambda) (None, s)
          = Inr (None, s))"
proof (intro conjI impI)
  assume a: "theta1 < length s \<and> theta2 < length s \<and> X < length s \<and> y < length s
      \<and> nrows (s ! theta1) = h \<and> ncols (s ! theta1) = n + 1
      \<and> nrows (s ! theta2) = k \<and> ncols (s ! theta2) = h + 1
      \<and> nrows (s ! X) = m \<and> ncols (s ! X) = n \<and> nrows (s ! y) = m \<and> ncols (s ! y) = k
      \<and> 1 \<le> m"
  then have refs: "theta1 < length s" "theta2 < length s" "X < length s" "y < length s"
    and sh: "nrows (s ! theta1) = h" "ncols (s ! theta1) = n + 1"
      "nrows (s ! theta2) = k" "ncols (s ! theta2) = h + 1"
      "nrows (s ! X) = m" "ncols (s ! X) = n" "nrows (s ! y) = m" "ncols (s ! y) = k"
    and m: "1 \<le> m"
    by simp_all
  show "\<exists>res. backprop sg s theta1 theta2 X y lambda = Inr res"
    using backprop_run [OF refs sh m, of sg lambda] by blast
  assume b: "theta1 \<noteq> theta2 \<and> X \<noteq> theta2 \<and> y \<noteq> theta1 \<and> y \<noteq> theta2 \<and> 1 \<le> num_iters"
  then have dist: "theta1 \<noteq> theta2" "X \<noteq> theta2" "y \<noteq> theta1" "y \<noteq> theta2"
    by simp_all
  have X1: "X \<noteq> theta1"
    using sh(2,6) by auto
  obtain p where p: "nat num_iters = Suc p"
    using b by (cases "nat num_iters") simp_all
  show "\<exists>res. gradient sg s theta1 theta2 X y num_iters alpha lambda = Inr res"
    using gradient_run [OF refs dist(1) X1 dist(2-4) sh m p, of sg alpha lambda] by blast
next
  assume "num_iters \<le> 0"
  then show "for_loop [0..<nat num_iters] (gradient_body sg theta1 theta2 X y alpha lambda) (None, s)
              = Inr (None, s)"
    by simp
qed

theorem gradient_iterations_witness:
  "\<exists>J s'. gradient sigmoid
      [\<lparr>nrows = 2, ncols = 3, buf = [0, 0, 0, 0, 0, 0]\<rparr>,
       \<lparr>nrows = 1, ncols = 3, buf = [0, 0, 0]\<rparr>,
       \<lparr>nrows = 1, ncols = 2, buf = [1, 1]\<rparr>,
       \<lparr>nrows = 1, ncols = 1, buf = [1]\<rparr>] 0 1 2 3 2 1 0 = Inr ((J, 0, 1), s')
    \<and> s' ! 2 = \<lparr>nrows = 1, ncols = 2, buf = [1, 1]\<rparr>
    \<and> s' ! 3 = \<lparr>nrows = 1, ncols = 1, buf = [1]\<rparr>
    \<and> length s' = 8"
  using gradient_iterations [where s = "[\<lparr>nrows = 2, ncols = 3, buf = [0, 0, 0, 0, 0, 0]\<rparr>,
       \<lparr>nrows = 1, ncols = 3, buf = [0, 0, 0]\<rparr>,
       \<lparr>nrows = 1, ncols = 2, buf = [1, 1]\<rparr>,
       \<lparr>nrows = 1, ncols = 1, buf = [1]\<rparr>]"
      and ?theta1.0 = 0 and ?theta2.0 = 1 and X = 2 and y = 3 and h = 2 and n = 2 and k = 1 and m = 1
      and sg = sigmoid and num_iters = 2 and alpha = 1 and lambda = 0]
  by (simp add: eval_nat_numeral del: funpow.simps) blast

theorem gradient_cost_before_last_update_witness:
  "\<exists>J s'. gradient sigmoid
      [\<lparr>nrows = 2, ncols = 3, buf = [0, 0, 0, 0, 0, 0]\<rparr>,
       \<lparr>nrows = 1, ncols = 3, buf = [0, 0, 0]\<rparr>,
       \<lparr>nrows = 1, ncols = 2, buf = [1, 1]\<rparr>,
       \<lparr>nrows = 1, ncols = 1, buf = [1]\<rparr>] 0 1 2 3 1 1 0 = Inr ((J, 0, 1), s')
    \<and> cost sigmoid \<lparr>nrows = 2, ncols = 3, buf = [0, 0, 0, 0, 0, 0]\<rparr>
                    \<lparr>nrows = 1, ncols = 3, buf = [0, 0, 0]\<rparr>
                    \<lparr>nrows = 1, ncols = 2, buf = [1, 1]\<rparr>
                    \<lparr>nrows = 1, ncols = 1, buf = [1]\<rparr> 0 = Inr J"
  using gradient_cost_before_last_update [where s = "[\<lparr>nrows = 2, ncols = 3, buf = [0, 0, 0, 0, 0, 0]\<rparr>,
       \<lparr>nrows = 1, ncols = 3, buf = [0, 0, 0]\<rparr>,
       \<lparr>nrows = 1, ncols = 2, buf = [1, 1]\<rparr>,
       \<lparr>nrows = 1, ncols = 1, buf = [1]\<rparr>]"
      and ?theta1.0 = 0 and ?theta2.0 = 1 and X = 2 and y = 3 and h = 2 and n = 2 and k = 1 and m = 1
      and sg = sigmoid and num_iters = 1 and alpha = 1 and lambda = 0]
  by (simp add: eval_nat_numeral) blast

text \<open>
  Claim C8, as stated, fails: nothing validates the hyperparameters. With
  \<open>lambda = -1\<close> both \<open>backprop\<close> and a training loop of one turn return a result
  and no error.
\<close>

theorem no_validation_counterexample:
  "\<not> isl (backprop sigmoid
      [\<lparr>nrows = 2, ncols = 3, buf = [0, 0, 0, 0, 0, 0]\<rparr>,
       \<lparr>nrows = 1, ncols = 3, buf = [0, 0, 0]\<rparr>,
       \<lparr>nrows = 1, ncols = 2, buf = [1, 1]\<rparr>,
       \<lparr>nrows = 1, ncols = 1, buf = [1]\<rparr>] 0 1 2 3 (- 1))
   \<and> \<not> isl (gradient sigmoid
      [\<lparr>nrows = 2, ncols = 3, buf = [0, 0, 0, 0, 0, 0]\<rparr>,
       \<lparr>nrows = 1, ncols = 3, buf = [0, 0, 0]\<rparr>,
       \<lparr>nrows = 1, ncols = 2, buf = [1, 1]\<rparr>,
       \<lparr>nrows = 1, ncols = 1, buf = [1]\<rparr>] 0 1 2 3 1 1 (- 1))"
proof -
  have "\<exists>res. backprop sigmoid
      [\<lparr>nrows = 2, ncols = 3, buf = [0, 0, 0, 0, 0, 0]\<rparr>,
       \<lparr>nrows = 1, ncols = 3, buf = [0, 0, 0]\<rparr>,
       \<lparr>nrows = 1, ncols = 2, buf = [1, 1]\<rparr>,
       \<lparr>nrows = 1, ncols = 1, buf = [1]\<rparr>] 0 1 2 3 (- 1) = Inr res"
    using backprop_run [where s = "[\<lparr>nrows = 2, ncols = 3, buf = [0, 0, 0, 0, 0, 0]\<rparr>,
       \<lparr>nrows = 1, ncols = 3, buf = [0, 0, 0]\<rparr>,
       \<lparr>nrows = 1, ncols = 2, buf = [1, 1]\<rparr>,
       \<lparr>nrows = 1, ncols = 1, buf = [1]\<rparr>]"
      and ?theta1.0 = 0 and ?theta2.0 = 1 and X = 2 and y = 3 and h = 2 and n = 2 and k = 1 and m = 1
      and sg = sigmoid and lambda = "- 1"]
    by (simp add: eval_nat_numeral) blast
  moreover have "\<exists>res. gradient sigmoid
      [\<lparr>nrows = 2, ncols = 3, buf = [0, 0, 0, 0, 0, 0]\<rparr>,
       \<lparr>nrows = 1, ncols = 3, buf = [0, 0, 0]\<rparr>,
       \<lparr>nrows = 1, ncols = 2, buf = [1, 1]\<rparr>,
       \<lparr>nrows = 1, ncols = 1, buf = [1]\<rparr>] 0 1 2 3 1 1 (- 1) = Inr res"
    using gradient_run [where s = "[\<lparr>nrows = 2, ncols = 3, buf = [0, 0, 0, 0, 0, 0]\<rparr>,
       \<lparr>nrows = 1, ncols = 3, buf = [0, 0, 0]\<rparr>,
       \<lparr>nrows = 1, ncols = 2, buf = [1, 1]\<rparr>,
       \<lparr>nrows = 1, ncols = 1, buf = [1]\<rparr>]"
      and ?theta1.0 = 0 and ?theta2.0 = 1 and X = 2 and y = 3 and h = 2 and n = 2 and k = 1 and m = 1
      and sg = sigmoid and lambda = "- 1" and alpha = 1 and num_iters = 1 and p = 0]
    by (simp add: eval_nat_numeral del: funpow.simps) blast
  ultimately show ?thesis
    by auto
qed

theorem gradient_no_validation_witness:
  "(\<exists>res. backprop sigmoid
      [\<lparr>nrows = 2, ncols = 3, buf = [0, 0, 0, 0, 0, 0]\<rparr>,
       \<lparr>nrows = 1, ncols = 3, buf = [0, 0, 0]\<rparr>,
       \<lparr>nrows = 1, ncols = 2, buf = [1, 1]\<rparr>,
       \<lparr>nrows = 1, ncols = 1, buf = [1]\<rparr>] 0 1 2 3 (- 1) = Inr res)
   \<and> (\<exists>res. gradient sigmoid
      [\<lparr>nrows = 2, ncols = 3, buf = [0, 0, 0, 0, 0, 0]\<rparr>,
       \<lparr>nrows = 1, ncols = 3, buf = [0, 0, 0]\<rparr>,
       \<lparr>nrows = 1, ncols = 2, buf = [1, 1]\<rparr>,
       \<lparr>nrows = 1, ncols = 1, buf = [1]\<rparr>] 0 1 2 3 2 1 (- 1) = Inr res)
   \<and> for_loop [0..<nat 0] (gradient_body sigmoid 0 1 2 3 1 (- 1))
        (None, [\<lparr>nrows = 2, ncols = 3, buf = [0, 0, 0, 0, 0, 0]\<rparr>,
       \<lparr>nrows = 1, ncols = 3, buf = [0, 0, 0]\<rparr>,
       \<lparr>nrows = 1, ncols = 2, buf = [1, 1]\<rparr>,
       \<lparr>nrows = 1, ncols = 1, buf = [1]\<rparr>])
      = Inr (None, [\<lparr>nrows = 2, ncols = 3, buf = [0, 0, 0, 0, 0, 0]\<rparr>,
       \<lparr>nrows = 1, ncols = 3, buf = [0, 0, 0]\<rparr>,
       \<lparr>nrows = 1, ncols = 2, buf = [1, 1]\<rparr>,
       \<lparr>nrows = 1, ncols = 1, buf = [1]\<rparr>])"
  using gradient_no_validation [where s = "[\<lparr>nrows = 2, ncols = 3, buf = [0, 0, 0, 0, 0, 0]\<rparr>,
       \<lparr>nrows = 1, ncols = 3, buf = [0, 0, 0]\<rparr>,
       \<lparr>nrows = 1, ncols = 2, buf = [1, 1]\<rparr>,
       \<lparr>nrows = 1, ncols = 1, buf = [1]\<rparr>]"
      and ?theta1.0 = 0 and ?theta2.0 = 1 and X = 2 and y = 3 and h = 2 and n = 2 and k = 1 and m = 1
      and sg = sigmoid and lambda = "- 1" and alpha = 1 and num_iters = 2]
    gradient_no_validation [where s = "[\<lparr>nrows = 2, ncols = 3, buf = [0, 0, 0, 0, 0, 0]\<rparr>,
       \<lparr>nrows = 1, ncols = 3, buf = [0, 0, 0]\<rparr>,
       \<lparr>nrows = 1, ncols = 2, buf = [1, 1]\<rparr>,
       \<lparr>nrows = 1, ncols = 1, buf = [1]\<rparr>]"
      and ?theta1.0 = 0 and ?theta2.0 = 1 and X = 2 and y = 3 and h = 2 and n = 2 and k = 1 and m = 1
      and sg = sigmoid and lambda = "- 1" and alpha = 1 and num_iters = 0]
  by (simp add: eval_nat_numeral)

end
